theory Spec2Isabelle
  imports Complex_Main "HOL-Library.Multiset"
begin

section \<open>Values shared by the backends\<close>

text \<open>
  Go's \<open>float64\<close> appears in the gateway only as an opaque quantity that is compared
  with zero, negated, and handed to the arithmetic of the rounding helpers. A value is a
  finite number, one of the two infinities, or NaN (\<open>strconv.ParseFloat\<close> yields all
  of them). The comparisons below are those of IEEE 754: every comparison with NaN is
  false. Positive and negative zero compare equal and are both \<open>Finite 0\<close>.
\<close>

datatype float64 = Finite real | PosInf | NegInf | NaN

fun f_lt :: "float64 \<Rightarrow> float64 \<Rightarrow> bool" where
  "f_lt NaN _ = False"
| "f_lt _ NaN = False"
| "f_lt (Finite x) (Finite y) = (x < y)"
| "f_lt PosInf _ = False"
| "f_lt _ PosInf = True"
| "f_lt _ NegInf = False"
| "f_lt NegInf _ = True"

fun f_eq :: "float64 \<Rightarrow> float64 \<Rightarrow> bool" where
  "f_eq NaN _ = False"
| "f_eq _ NaN = False"
| "f_eq a b = (a = b)"

definition f_le :: "float64 \<Rightarrow> float64 \<Rightarrow> bool" where
  "f_le a b = (f_lt a b \<or> f_eq a b)"

definition f_gt :: "float64 \<Rightarrow> float64 \<Rightarrow> bool" where
  "f_gt a b = f_lt b a"

fun f_neg :: "float64 \<Rightarrow> float64" where
  "f_neg (Finite x) = Finite (- x)"
| "f_neg PosInf = NegInf"
| "f_neg NegInf = PosInf"
| "f_neg NaN = NaN"

abbreviation f_zero :: float64 where
  "f_zero \<equiv> Finite 0"

text \<open>
  A Go \<open>error\<close> is represented by the text of \<open>err.Error()\<close>, which is all the code
  looks at; wrapping with \<open>%w\<close> puts a prefix in front of the wrapped text. The
  prefixes of the source are Chinese; they are written as their UTF-8 bytes.
\<close>

type_synonym error = string

text \<open>
  A value decoded from JSON into \<open>interface{}\<close>: a string, a number (always
  \<open>float64\<close>), a boolean, or \<open>nil\<close>. A key that is absent from a decoded object
  reads as \<open>nil\<close> too.
\<close>

datatype jvalue = JString string | JNumber float64 | JBool bool | JNull

type_synonym jobject = "string \<rightharpoonup> jvalue"

text \<open>The type assertions \<open>v.(string)\<close> and \<open>v.(float64)\<close> in their two-result form.\<close>

fun as_string :: "jvalue option \<Rightarrow> string option" where
  "as_string (Some (JString s)) = Some s"
| "as_string _ = None"

fun as_float64 :: "jvalue option \<Rightarrow> float64 option" where
  "as_float64 (Some (JNumber x)) = Some x"
| "as_float64 _ = None"

text \<open>\<open>m[k]\<close> as an \<open>interface{}\<close> value.\<close>

definition lookup :: "jobject \<Rightarrow> string \<Rightarrow> jvalue" where
  "lookup m k = (case m k of Some v \<Rightarrow> v | None \<Rightarrow> JNull)"

text \<open>One entry of the \<open>symbols\<close> array of the venue's exchange information.\<close>

record symbol_info =
  si_Symbol :: string
  si_PricePrecision :: int
  si_QuantityPrecision :: int
  si_Filters :: "jobject list"

text \<open>
  Library code the gateway calls and does not define: the JSON decoders, the number
  parser (\<open>strconv.ParseFloat\<close>, whose error the gateway always drops), and the
  \<open>float64\<close> arithmetic with its rounding. They are parameters of the model: nothing
  is assumed about the values they return. \<open>int_out_of_range\<close> is the result of
  converting to an integer a \<open>float64\<close> that has no 64-bit integer value, which Go
  leaves to the implementation.
\<close>

record golib =
  json_objects :: "string \<Rightarrow> error + jobject list"
  json_exchangeInfo :: "string \<Rightarrow> error + symbol_info list"
  strconv_ParseFloat :: "string \<Rightarrow> float64"
  f_div :: "float64 \<Rightarrow> float64 \<Rightarrow> float64"
  f_mul :: "float64 \<Rightarrow> float64 \<Rightarrow> float64"
  math_Round :: "float64 \<Rightarrow> float64"
  math_Pow10 :: "int \<Rightarrow> float64"
  int_out_of_range :: "float64 \<Rightarrow> int"

text \<open>
  The conversions \<open>int(x)\<close> and \<open>int64(x)\<close> of a \<open>float64\<close>: the fraction is
  discarded (truncation towards zero).
\<close>

definition trunc_zero :: "real \<Rightarrow> int" where
  "trunc_zero x = (if 0 \<le> x then \<lfloor>x\<rfloor> else \<lceil>x\<rceil>)"

fun int_of_float64 :: "golib \<Rightarrow> float64 \<Rightarrow> int" where
  "int_of_float64 L (Finite x) =
     (if - (2 ^ 63) \<le> trunc_zero x \<and> trunc_zero x < 2 ^ 63 then trunc_zero x
      else int_out_of_range L (Finite x))"
| "int_of_float64 L x = int_out_of_range L x"

text \<open>\<open>float64(n)\<close> of an integer.\<close>

definition float64_of_int :: "int \<Rightarrow> float64" where
  "float64_of_int n = Finite (of_int n)"

section \<open>DecisionSequencer: \<open>sortDecisionsByPriority\<close>\<close>

text \<open>The \<open>decision.Decision\<close> struct, field by field.\<close>

record Decision =
  Symbol :: string
  Action :: string
  Leverage :: int
  PositionSizeUSD :: float64
  StopLoss :: float64
  TakeProfit :: float64
  Confidence :: int
  RiskUSD :: float64
  Reasoning :: string

text \<open>The closure \<open>getActionPriority\<close>: a \<open>switch\<close> on the action string.\<close>

definition getActionPriority :: "string \<Rightarrow> int" where
  "getActionPriority action =
     (if action = ''close_long'' \<or> action = ''close_short'' then 1
      else if action = ''open_long'' \<or> action = ''open_short'' then 2
      else if action = ''hold'' \<or> action = ''wait'' then 3
      else 999)"

abbreviation prio :: "Decision \<Rightarrow> int" where
  "prio d \<equiv> getActionPriority (Action d)"

text \<open>
  The inner loop \<open>for j := i + 1; j < len(sorted); j++\<close>: element \<open>i\<close> is exchanged
  with element \<open>j\<close> whenever its priority number is strictly larger. The loop is entered
  with \<open>i < j\<close>, so both reads are in range whenever \<open>j < length srt\<close>.
\<close>

function sort_inner :: "nat \<Rightarrow> nat \<Rightarrow> Decision list \<Rightarrow> Decision list" where
  "sort_inner i j srt =
     (if j < length srt
      then sort_inner i (Suc j)
             (if prio (srt ! i) > prio (srt ! j)
              then srt[i := srt ! j, j := srt ! i]
              else srt)
      else srt)"
  by pat_completeness auto
termination
  by (relation "measure (\<lambda>(i, j, srt). length srt - j)") auto

declare sort_inner.simps [simp del]

lemma length_sort_inner [simp]: "length (sort_inner i j srt) = length srt"
proof (induction i j srt rule: sort_inner.induct)
  case (1 i j srt)
  show ?case
  proof (cases "j < length srt")
    case True
    with "1" show ?thesis
      by (subst sort_inner.simps) simp
  next
    case False
    then show ?thesis
      by (subst sort_inner.simps) simp
  qed
qed

text \<open>The outer loop \<open>for i := 0; i < len(sorted)-1; i++\<close>.\<close>

function sort_outer :: "nat \<Rightarrow> Decision list \<Rightarrow> Decision list" where
  "sort_outer i srt =
     (if i + 1 < length srt
      then sort_outer (Suc i) (sort_inner i (Suc i) srt)
      else srt)"
  by pat_completeness auto
termination
  by (relation "measure (\<lambda>(i, srt). length srt - i)") auto

declare sort_outer.simps [simp del]

text \<open>
  \<open>sortDecisionsByPriority\<close>: a batch of at most one decision is returned as it is;
  otherwise the batch is copied and the copy is sorted in place by the two loops.
\<close>

definition sortDecisionsByPriority :: "Decision list \<Rightarrow> Decision list" where
  "sortDecisionsByPriority decisions =
     (if length decisions \<le> 1 then decisions else sort_outer 0 decisions)"

text \<open>A decision that carries only a symbol and an action, for the scenarios.\<close>

definition intent :: "string \<Rightarrow> string \<Rightarrow> Decision" where
  "intent act symb =
     \<lparr>Symbol = symb, Action = act, Leverage = 0, PositionSizeUSD = f_zero,
      StopLoss = f_zero, TakeProfit = f_zero, Confidence = 0, RiskUSD = f_zero,
      Reasoning = []\<rparr>"

text \<open>
  The classes of actions the priority distinguishes, and what it means for a batch to be
  in priority order: no decision of a later class stands before one of an earlier class.
\<close>

definition is_close :: "Decision \<Rightarrow> bool" where
  "is_close d = (Action d = ''close_long'' \<or> Action d = ''close_short'')"

definition is_open :: "Decision \<Rightarrow> bool" where
  "is_open d = (Action d = ''open_long'' \<or> Action d = ''open_short'')"

definition is_idle :: "Decision \<Rightarrow> bool" where
  "is_idle d = (Action d = ''hold'' \<or> Action d = ''wait'')"

definition is_unknown :: "Decision \<Rightarrow> bool" where
  "is_unknown d = (\<not> is_close d \<and> \<not> is_open d \<and> \<not> is_idle d)"

definition precedes :: "(Decision \<Rightarrow> bool) \<Rightarrow> (Decision \<Rightarrow> bool) \<Rightarrow> Decision list \<Rightarrow> bool" where
  "precedes P Q xs = sorted_wrt (\<lambda>a b. \<not> (Q a \<and> P b)) xs"

definition priority_ordered :: "Decision list \<Rightarrow> bool" where
  "priority_ordered xs =
     (precedes is_close is_open xs \<and> precedes is_close is_idle xs \<and>
      precedes is_close is_unknown xs \<and> precedes is_open is_idle xs \<and>
      precedes is_open is_unknown xs \<and> precedes is_idle is_unknown xs)"

section \<open>The wallet-signed venue: \<open>AsterTrader\<close>\<close>

subsection \<open>Strings, errors and the outside world\<close>

definition msg_unsupported_method :: string where
  "msg_unsupported_method =
     [CHR 0xE4, CHR 0xB8, CHR 0x8D, CHR 0xE6, CHR 0x94, CHR 0xAF, CHR 0xE6, CHR 0x8C, CHR 0x81,
      CHR 0xE7, CHR 0x9A, CHR 0x84] @ ''HTTP'' @
     [CHR 0xE6, CHR 0x96, CHR 0xB9, CHR 0xE6, CHR 0xB3, CHR 0x95] @ '': ''"

definition msg_request_failed_a :: string where
  "msg_request_failed_a =
     [CHR 0xE8, CHR 0xAB, CHR 0x8B, CHR 0xE6, CHR 0xB1, CHR 0x82, CHR 0xE5, CHR 0xA4, CHR 0xB1,
      CHR 0xE6, CHR 0x95, CHR 0x97, CHR 0xEF, CHR 0xBC, CHR 0x88, CHR 0xE5, CHR 0xB7, CHR 0xB2,
      CHR 0xE9, CHR 0x87, CHR 0x8D, CHR 0xE8, CHR 0xA9, CHR 0xA6]"

definition msg_request_failed_b :: string where
  "msg_request_failed_b = [CHR 0xE6, CHR 0xAC, CHR 0xA1, CHR 0xEF, CHR 0xBC, CHR 0x89] @ '': ''"

definition msg_list_orders_failed :: string where
  "msg_list_orders_failed =
     [CHR 0xE7, CHR 0x8D, CHR 0xB2, CHR 0xE5, CHR 0x8F, CHR 0x96, CHR 0xE6, CHR 0x9C, CHR 0xAA,
      CHR 0xE5, CHR 0xAE, CHR 0x8C, CHR 0xE6, CHR 0x88, CHR 0x90, CHR 0xE8, CHR 0xA8, CHR 0x82,
      CHR 0xE5, CHR 0x96, CHR 0xAE, CHR 0xE5, CHR 0xA4, CHR 0xB1, CHR 0xE6, CHR 0x95, CHR 0x97] @
     '': ''"

definition msg_parse_orders_failed :: string where
  "msg_parse_orders_failed =
     [CHR 0xE8, CHR 0xA7, CHR 0xA3, CHR 0xE6, CHR 0x9E, CHR 0x90, CHR 0xE8, CHR 0xA8, CHR 0x82,
      CHR 0xE5, CHR 0x96, CHR 0xAE, CHR 0xE6, CHR 0x95, CHR 0xB8, CHR 0xE6, CHR 0x93, CHR 0x9A,
      CHR 0xE5, CHR 0xA4, CHR 0xB1, CHR 0xE6, CHR 0x95, CHR 0x97] @ '': ''"

text \<open>\<open>%d\<close> of a non-negative integer.\<close>

definition digit_char :: "nat \<Rightarrow> char" where
  "digit_char d = ''0123456789'' ! d"

function show_nat :: "nat \<Rightarrow> string" where
  "show_nat n = (if n < 10 then [digit_char n] else show_nat (n div 10) @ [digit_char (n mod 10)])"
  by pat_completeness auto
termination
  by (relation "measure id") auto

declare show_nat.simps [simp del]

text \<open>\<open>strings.Contains\<close>: the second string occurs somewhere in the first.\<close>

fun strings_Contains :: "string \<Rightarrow> string \<Rightarrow> bool" where
  "strings_Contains [] substr = (substr = [])"
| "strings_Contains (c # cs) substr =
     (take (length substr) (c # cs) = substr \<or> strings_Contains cs substr)"

text \<open>
  \<open>strings.ToUpper\<close> on the ASCII letters; the methods passed by the gateway are the
  literals GET, POST and DELETE. Other bytes are left as they are.
\<close>

definition upper_char :: "char \<Rightarrow> char" where
  "upper_char c =
     (case map_of (zip ''abcdefghijklmnopqrstuvwxyz'' ''ABCDEFGHIJKLMNOPQRSTUVWXYZ'') c of
        Some u \<Rightarrow> u
      | None \<Rightarrow> c)"

definition strings_ToUpper :: "string \<Rightarrow> string" where
  "strings_ToUpper s = map upper_char s"

text \<open>
  The values the gateway puts into a request's parameter map
  (\<open>map[string]interface{}\<close>): strings, \<open>int\<close>/\<open>int64\<close> and the \<open>uint64\<close> nonce.
\<close>

datatype pvalue = VString string | VInt int | VUint64 nat

type_synonym params = "string \<rightharpoonup> pvalue"

text \<open>
  What \<open>client.Do\<close> gives back: a transport error with its message, or a response with
  a status code and a body.
\<close>

datatype http_result = TransportError string | Response nat string

record wire_request =
  w_method :: string
  w_url :: string
  w_in_body :: bool
  w_params :: params

text \<open>
  The world outside the process. \<open>net\<close> is the outcome of the n-th HTTP round trip and
  \<open>clock\<close> the n-th reading of \<open>time.Now()\<close> in nanoseconds since the epoch; both are
  inputs the code has no control over. \<open>requests\<close> and \<open>sleeps\<close> record what the
  process has done: the round trips made and the seconds passed to \<open>time.Sleep\<close>.
  \<open>invocations\<close> is a trace of the calls of \<open>request\<close> (method, endpoint, unsigned
  parameters), kept so that logical calls can be counted apart from their retries.
\<close>

record world =
  net :: "nat \<Rightarrow> http_result"
  clock :: "nat \<Rightarrow> nat"
  reads :: nat
  requests :: "wire_request list"
  sleeps :: "nat list"
  invocations :: "(string \<times> string \<times> params) list"

definition time_Now :: "world \<Rightarrow> nat \<times> world" where
  "time_Now w = (clock w (reads w), w\<lparr>reads := Suc (reads w)\<rparr>)"

definition time_Sleep :: "nat \<Rightarrow> world \<Rightarrow> world" where
  "time_Sleep seconds w = w\<lparr>sleeps := sleeps w @ [seconds]\<rparr>"

subsection \<open>Precision cache and rounding\<close>

record SymbolPrecision =
  PricePrecision :: int
  QuantityPrecision :: int
  TickSize :: float64
  StepSize :: float64

text \<open>
  The trader. \<open>privateKey\<close> stands for what \<open>sign\<close> does with the key: canonical
  JSON of the parameters, ABI encoding with the two addresses and the nonce, Keccak-256,
  the EIP-191 prefix and the ECDSA signature. It yields the hex signature or the error of
  the step that failed.
\<close>

record AsterTrader =
  user :: string
  signer :: string
  privateKey :: "params \<Rightarrow> nat \<Rightarrow> error + string"
  baseURL :: string
  symbolPrecision :: "string \<rightharpoonup> SymbolPrecision"

subsection \<open>Signing and the retrying transport\<close>

text \<open>\<open>genNonce\<close>: the wall clock in microseconds.\<close>

definition genNonce :: "world \<Rightarrow> nat \<times> world" where
  "genNonce w = (case time_Now w of (ns, w') \<Rightarrow> (ns div 1000, w'))"

text \<open>
  \<open>sign\<close> adds \<open>recvWindow\<close> and the millisecond timestamp, signs, and adds the
  addresses, the signature and the nonce. The map it is given is updated in place; here
  the updated map is returned.
\<close>

definition sign :: "AsterTrader \<Rightarrow> world \<Rightarrow> params \<Rightarrow> nat \<Rightarrow> (error + params) \<times> world" where
  "sign t w params nonce =
     (case time_Now w of (ns, w') \<Rightarrow>
        (let params1 = params(''recvWindow'' \<mapsto> VString ''50000'',
                              ''timestamp'' \<mapsto> VString (show_nat (ns div 1000000)))
         in case privateKey t params1 nonce of
              Inl err \<Rightarrow> (Inl err, w')
            | Inr sig \<Rightarrow>
                (Inr (params1(''user'' \<mapsto> VString (user t),
                              ''signer'' \<mapsto> VString (signer t),
                              ''signature'' \<mapsto> VString (''0x'' @ sig),
                              ''nonce'' \<mapsto> VUint64 nonce)), w')))"

text \<open>
  \<open>doRequest\<close>: one HTTP round trip. POST sends the parameters as a form body, GET and
  DELETE in the query string; any status other than 200 becomes the error
  \<open>HTTP <status>: <body>\<close>; any other method is refused without a round trip.
  The error \<open>http.NewRequest\<close> gives for a URL it cannot parse is left out: the base
  URL is fixed and the endpoints are literals.
\<close>

definition http_round_trip :: "world \<Rightarrow> wire_request \<Rightarrow> (error + string) \<times> world" where
  "http_round_trip w req =
     (let w' = w\<lparr>requests := requests w @ [req]\<rparr>
      in case net w (length (requests w)) of
           TransportError msg \<Rightarrow> (Inl msg, w')
         | Response status body \<Rightarrow>
             (if status \<noteq> 200
              then (Inl (''HTTP '' @ show_nat status @ '': '' @ body), w')
              else (Inr body, w')))"

definition doRequest ::
  "AsterTrader \<Rightarrow> world \<Rightarrow> string \<Rightarrow> string \<Rightarrow> params \<Rightarrow> (error + string) \<times> world" where
  "doRequest t w method endpoint params =
     (let fullURL = baseURL t @ endpoint;
          method = strings_ToUpper method
      in if method = ''POST''
         then http_round_trip w
                \<lparr>w_method = ''POST'', w_url = fullURL, w_in_body = True, w_params = params\<rparr>
         else if method = ''GET'' \<or> method = ''DELETE''
         then http_round_trip w
                \<lparr>w_method = method, w_url = fullURL, w_in_body = False, w_params = params\<rparr>
         else (Inl (msg_unsupported_method @ method), w))"

text \<open>
  \<open>request\<close>: the loop \<open>for attempt := 1; attempt <= maxRetries; attempt++\<close>. Each
  round takes a nonce, copies the parameters, signs the copy and sends it. A signing
  error and a success return at once. After a failed round trip the error is kept in
  \<open>lastErr\<close>; if its text contains one of the three markers and the attempt is not the
  last one, the loop sleeps \<open>attempt\<close> seconds and continues; in every other case the
  error of this round trip is returned. The statement after the loop wraps \<open>lastErr\<close>.
\<close>

definition maxRetries :: nat where
  "maxRetries = 3"

definition retry_exhausted :: "error option \<Rightarrow> error" where
  "retry_exhausted lastErr =
     msg_request_failed_a @ show_nat maxRetries @ msg_request_failed_b @
     (case lastErr of None \<Rightarrow> ''%!w(<nil>)'' | Some err \<Rightarrow> err)"

function request_loop ::
  "AsterTrader \<Rightarrow> world \<Rightarrow> string \<Rightarrow> string \<Rightarrow> params \<Rightarrow> nat \<Rightarrow> error option \<Rightarrow>
   (error + string) \<times> world" where
  "request_loop t w method endpoint params attempt lastErr =
     (if attempt \<le> maxRetries
      then (case genNonce w of (nonce, w1) \<Rightarrow>
              (let paramsCopy = params
               in case sign t w1 paramsCopy nonce of
                    (Inl err, w2) \<Rightarrow> (Inl err, w2)
                  | (Inr signed, w2) \<Rightarrow>
                      (case doRequest t w2 method endpoint signed of
                         (Inr body, w3) \<Rightarrow> (Inr body, w3)
                       | (Inl err, w3) \<Rightarrow>
                           (if (strings_Contains err ''timeout'' \<or>
                                strings_Contains err ''connection reset'' \<or>
                                strings_Contains err ''EOF'') \<and> attempt < maxRetries
                            then request_loop t (time_Sleep attempt w3) method endpoint params
                                   (Suc attempt) (Some err)
                            else (Inl err, w3)))))
      else (Inl (retry_exhausted lastErr), w))"
  by pat_completeness auto
termination
  by (relation "measure (\<lambda>(t, w, method, endpoint, params, attempt, lastErr). Suc maxRetries - attempt)")
     auto

declare request_loop.simps [simp del]

definition request ::
  "AsterTrader \<Rightarrow> world \<Rightarrow> string \<Rightarrow> string \<Rightarrow> params \<Rightarrow> (error + string) \<times> world" where
  "request t w method endpoint params =
     request_loop t (w\<lparr>invocations := invocations w @ [(method, endpoint, params)]\<rparr>)
       method endpoint params 1 None"

subsection \<open>Precision lookup and the price and quantity formatters\<close>

definition msg_precision_not_found_a :: string where
  "msg_precision_not_found_a =
     [CHR 0xE6, CHR 0x9C, CHR 0xAA, CHR 0xE6, CHR 0x89, CHR 0xBE, CHR 0xE5, CHR 0x88, CHR 0xB0,
      CHR 0xE4, CHR 0xBA, CHR 0xA4, CHR 0xE6, CHR 0x98, CHR 0x93, CHR 0xE5, CHR 0xB0, CHR 0x8D] @
     '' ''"

definition msg_precision_not_found_b :: string where
  "msg_precision_not_found_b =
     '' '' @
     [CHR 0xE7, CHR 0x9A, CHR 0x84, CHR 0xE7, CHR 0xB2, CHR 0xBE, CHR 0xE5, CHR 0xBA, CHR 0xA6,
      CHR 0xE4, CHR 0xBF, CHR 0xA1, CHR 0xE6, CHR 0x81, CHR 0xAF]"

text \<open>
  The loop over a symbol's filters: a \<open>PRICE_FILTER\<close> with a string \<open>tickSize\<close> sets
  the tick size, a \<open>LOT_SIZE\<close> with a string \<open>stepSize\<close> sets the step size.
\<close>

definition apply_filter :: "golib \<Rightarrow> jobject \<Rightarrow> SymbolPrecision \<Rightarrow> SymbolPrecision" where
  "apply_filter L flt prec =
     (let filterType = (case as_string (flt ''filterType'') of Some s \<Rightarrow> s | None \<Rightarrow> [])
      in if filterType = ''PRICE_FILTER''
         then (case as_string (flt ''tickSize'') of
                 Some tickSizeStr \<Rightarrow> prec\<lparr>TickSize := strconv_ParseFloat L tickSizeStr\<rparr>
               | None \<Rightarrow> prec)
         else if filterType = ''LOT_SIZE''
         then (case as_string (flt ''stepSize'') of
                 Some stepSizeStr \<Rightarrow> prec\<lparr>StepSize := strconv_ParseFloat L stepSizeStr\<rparr>
               | None \<Rightarrow> prec)
         else prec)"

definition cache_symbol ::
  "golib \<Rightarrow> symbol_info \<Rightarrow> (string \<rightharpoonup> SymbolPrecision) \<Rightarrow> (string \<rightharpoonup> SymbolPrecision)" where
  "cache_symbol L s cache =
     cache(si_Symbol s \<mapsto>
       fold (apply_filter L) (si_Filters s)
         \<lparr>PricePrecision = si_PricePrecision s, QuantityPrecision = si_QuantityPrecision s,
          TickSize = f_zero, StepSize = f_zero\<rparr>)"

text \<open>
  \<open>getPrecision\<close>: the cached entry if there is one; otherwise one unsigned GET of the
  exchange information (its status code is not looked at), every symbol of the answer is
  cached, and the symbol is looked up again.
\<close>

definition getPrecision ::
  "golib \<Rightarrow> AsterTrader \<Rightarrow> world \<Rightarrow> string \<Rightarrow> (error + SymbolPrecision) \<times> AsterTrader \<times> world" where
  "getPrecision L t w symbol =
     (case symbolPrecision t symbol of
        Some prec \<Rightarrow> (Inr prec, t, w)
      | None \<Rightarrow>
          (let req = \<lparr>w_method = ''GET'', w_url = baseURL t @ ''/fapi/v3/exchangeInfo'',
                      w_in_body = False, w_params = Map.empty\<rparr>;
               w' = w\<lparr>requests := requests w @ [req]\<rparr>
           in case net w (length (requests w)) of
                TransportError msg \<Rightarrow> (Inl msg, t, w')
              | Response status body \<Rightarrow>
                  (case json_exchangeInfo L body of
                     Inl err \<Rightarrow> (Inl err, t, w')
                   | Inr symbols \<Rightarrow>
                       (let t' = t\<lparr>symbolPrecision := fold (cache_symbol L) symbols (symbolPrecision t)\<rparr>
                        in case symbolPrecision t' symbol of
                             Some prec \<Rightarrow> (Inr prec, t', w')
                           | None \<Rightarrow>
                               (Inl (msg_precision_not_found_a @ symbol @ msg_precision_not_found_b),
                                t', w')))))"

text \<open>\<open>roundToTickSize\<close>.\<close>

definition roundToTickSize :: "golib \<Rightarrow> float64 \<Rightarrow> float64 \<Rightarrow> float64" where
  "roundToTickSize L val tickSize =
     (if f_le tickSize f_zero then val
      else (let steps = f_div L val tickSize;
                roundedSteps = math_Round L steps
            in f_mul L roundedSteps tickSize))"

text \<open>\<open>formatPrice\<close> and \<open>formatQuantity\<close>.\<close>

definition formatPrice ::
  "golib \<Rightarrow> AsterTrader \<Rightarrow> world \<Rightarrow> string \<Rightarrow> float64 \<Rightarrow> (error + float64) \<times> AsterTrader \<times> world" where
  "formatPrice L t w symbol price =
     (case getPrecision L t w symbol of
        (Inl err, t', w') \<Rightarrow> (Inl err, t', w')
      | (Inr prec, t', w') \<Rightarrow>
          (if f_gt (TickSize prec) f_zero
           then (Inr (roundToTickSize L price (TickSize prec)), t', w')
           else (let multiplier = math_Pow10 L (PricePrecision prec)
                 in (Inr (f_div L (math_Round L (f_mul L price multiplier)) multiplier), t', w'))))"

definition formatQuantity ::
  "golib \<Rightarrow> AsterTrader \<Rightarrow> world \<Rightarrow> string \<Rightarrow> float64 \<Rightarrow> (error + float64) \<times> AsterTrader \<times> world" where
  "formatQuantity L t w symbol quantity =
     (case getPrecision L t w symbol of
        (Inl err, t', w') \<Rightarrow> (Inl err, t', w')
      | (Inr prec, t', w') \<Rightarrow>
          (if f_gt (StepSize prec) f_zero
           then (Inr (roundToTickSize L quantity (StepSize prec)), t', w')
           else (let multiplier = math_Pow10 L (QuantityPrecision prec)
                 in (Inr (f_div L (math_Round L (f_mul L quantity multiplier)) multiplier), t', w'))))"

subsection \<open>Positions, leverage and order cancellation\<close>

text \<open>
  A position as every backend returns it: the map with the keys \<open>symbol\<close>, \<open>side\<close>,
  \<open>positionAmt\<close>, \<open>entryPrice\<close>, \<open>markPrice\<close>, \<open>unRealizedProfit\<close>, \<open>leverage\<close>
  and \<open>liquidationPrice\<close>.
\<close>

record position =
  symbol :: jvalue
  side :: string
  positionAmt :: float64
  entryPrice :: float64
  markPrice :: float64
  unRealizedProfit :: float64
  leverage :: float64
  liquidationPrice :: float64

text \<open>
  A function that can panic: the one-result type assertion \<open>v.(string)\<close> panics when
  the value is not a string.
\<close>

datatype 'a outcome = Return 'a | Panic

text \<open>
  The body of the loop in \<open>AsterTrader.GetPositions\<close> for one decoded position:
  \<open>None\<close> is \<open>continue\<close>.
\<close>

definition aster_position :: "golib \<Rightarrow> jobject \<Rightarrow> position option outcome" where
  "aster_position L pos =
     (case as_string (pos ''positionAmt'') of
        None \<Rightarrow> Return None
      | Some posAmtStr \<Rightarrow>
          (let posAmt = strconv_ParseFloat L posAmtStr
           in if f_eq posAmt f_zero then Return None
              else (case as_string (pos ''entryPrice'') of None \<Rightarrow> Panic | Some entryPriceStr \<Rightarrow>
                   (case as_string (pos ''markPrice'') of None \<Rightarrow> Panic | Some markPriceStr \<Rightarrow>
                   (case as_string (pos ''unRealizedProfit'') of None \<Rightarrow> Panic | Some profitStr \<Rightarrow>
                   (case as_string (pos ''leverage'') of None \<Rightarrow> Panic | Some leverageStr \<Rightarrow>
                   (case as_string (pos ''liquidationPrice'') of None \<Rightarrow> Panic | Some liqStr \<Rightarrow>
                      (let side = (if f_lt posAmt f_zero then ''short'' else ''long'');
                           posAmt = (if f_lt posAmt f_zero then f_neg posAmt else posAmt)
                       in Return (Some
                            \<lparr>symbol = lookup pos ''symbol'', side = side, positionAmt = posAmt,
                             entryPrice = strconv_ParseFloat L entryPriceStr,
                             markPrice = strconv_ParseFloat L markPriceStr,
                             unRealizedProfit = strconv_ParseFloat L profitStr,
                             leverage = strconv_ParseFloat L leverageStr,
                             liquidationPrice = strconv_ParseFloat L liqStr\<rparr>)))))))))"

fun aster_positions :: "golib \<Rightarrow> jobject list \<Rightarrow> position list \<Rightarrow> position list outcome" where
  "aster_positions L [] result = Return result"
| "aster_positions L (pos # rest) result =
     (case aster_position L pos of
        Panic \<Rightarrow> Panic
      | Return None \<Rightarrow> aster_positions L rest result
      | Return (Some p) \<Rightarrow> aster_positions L rest (result @ [p]))"

definition aster_GetPositions ::
  "golib \<Rightarrow> AsterTrader \<Rightarrow> world \<Rightarrow> (error + position list) outcome \<times> world" where
  "aster_GetPositions L t w =
     (case request t w ''GET'' ''/fapi/v3/positionRisk'' Map.empty of
        (Inl err, w') \<Rightarrow> (Return (Inl err), w')
      | (Inr body, w') \<Rightarrow>
          (case json_objects L body of
             Inl err \<Rightarrow> (Return (Inl err), w')
           | Inr positions \<Rightarrow>
               (case aster_positions L positions [] of
                  Panic \<Rightarrow> (Panic, w')
                | Return result \<Rightarrow> (Return (Inr result), w'))))"

text \<open>\<open>AsterTrader.SetLeverage\<close>: one signed POST, whatever the current leverage.\<close>

definition aster_SetLeverage ::
  "AsterTrader \<Rightarrow> world \<Rightarrow> string \<Rightarrow> int \<Rightarrow> error option \<times> world" where
  "aster_SetLeverage t w symb lev =
     (case request t w ''POST'' ''/fapi/v3/leverage''
             [''symbol'' \<mapsto> VString symb, ''leverage'' \<mapsto> VInt lev] of
        (Inl err, w') \<Rightarrow> (Some err, w')
      | (Inr body, w') \<Rightarrow> (None, w'))"

text \<open>
  \<open>AsterTrader.CancelStopOrders\<close>. The loop over the open orders cancels the orders of
  the four stop and take-profit types; a failed cancellation is logged and the loop goes
  on. \<open>canceledCount\<close> is only logged; the function returns \<open>nil\<close> once the list has
  been fetched and decoded.
\<close>

definition is_stop_type :: "string \<Rightarrow> bool" where
  "is_stop_type orderType =
     (orderType = ''STOP_MARKET'' \<or> orderType = ''TAKE_PROFIT_MARKET'' \<or>
      orderType = ''STOP'' \<or> orderType = ''TAKE_PROFIT'')"

definition order_type :: "jobject \<Rightarrow> string" where
  "order_type order = (case as_string (order ''type'') of Some s \<Rightarrow> s | None \<Rightarrow> [])"

definition order_id :: "golib \<Rightarrow> jobject \<Rightarrow> int" where
  "order_id L order =
     int_of_float64 L (case as_float64 (order ''orderId'') of Some x \<Rightarrow> x | None \<Rightarrow> f_zero)"

fun aster_cancel_loop ::
  "golib \<Rightarrow> AsterTrader \<Rightarrow> world \<Rightarrow> string \<Rightarrow> jobject list \<Rightarrow> nat \<Rightarrow> nat \<times> world" where
  "aster_cancel_loop L t w symb [] canceledCount = (canceledCount, w)"
| "aster_cancel_loop L t w symb (order # rest) canceledCount =
     (if is_stop_type (order_type order)
      then (case request t w ''DELETE'' ''/fapi/v3/order''
                    [''symbol'' \<mapsto> VString symb, ''orderId'' \<mapsto> VInt (order_id L order)] of
              (Inl err, w') \<Rightarrow> aster_cancel_loop L t w' symb rest canceledCount
            | (Inr body, w') \<Rightarrow> aster_cancel_loop L t w' symb rest (Suc canceledCount))
      else aster_cancel_loop L t w symb rest canceledCount)"

definition aster_CancelStopOrders ::
  "golib \<Rightarrow> AsterTrader \<Rightarrow> world \<Rightarrow> string \<Rightarrow> error option \<times> world" where
  "aster_CancelStopOrders L t w symb =
     (case request t w ''GET'' ''/fapi/v3/openOrders'' [''symbol'' \<mapsto> VString symb] of
        (Inl err, w') \<Rightarrow> (Some (msg_list_orders_failed @ err), w')
      | (Inr body, w') \<Rightarrow>
          (case json_objects L body of
             Inl err \<Rightarrow> (Some (msg_parse_orders_failed @ err), w')
           | Inr orders \<Rightarrow> (None, snd (aster_cancel_loop L t w' symb orders 0))))"

section \<open>The SDK-delegated venue: \<open>HyperliquidTrader\<close>\<close>

definition msg_get_positions_failed :: string where
  "msg_get_positions_failed =
     [CHR 0xE7, CHR 0x8D, CHR 0xB2, CHR 0xE5, CHR 0x8F, CHR 0x96, CHR 0xE6, CHR 0x8C, CHR 0x81,
      CHR 0xE5, CHR 0x80, CHR 0x89, CHR 0xE5, CHR 0xA4, CHR 0xB1, CHR 0xE6, CHR 0x95, CHR 0x97] @
     '': ''"

definition msg_set_leverage_failed :: string where
  "msg_set_leverage_failed =
     [CHR 0xE8, CHR 0xA8, CHR 0xAD, CHR 0xE7, CHR 0xBD, CHR 0xAE, CHR 0xE6, CHR 0x9D, CHR 0xA0,
      CHR 0xE6, CHR 0x9D, CHR 0x86, CHR 0xE5, CHR 0xA4, CHR 0xB1, CHR 0xE6, CHR 0x95, CHR 0x97] @
     '': ''"

definition msg_open_orders_failed :: string where
  "msg_open_orders_failed =
     [CHR 0xE7, CHR 0x8D, CHR 0xB2, CHR 0xE5, CHR 0x8F, CHR 0x96, CHR 0xE6, CHR 0x8E, CHR 0x9B,
      CHR 0xE5, CHR 0x96, CHR 0xAE, CHR 0xE5, CHR 0xA4, CHR 0xB1, CHR 0xE6, CHR 0x95, CHR 0x97] @
     '': ''"

text \<open>
  What the gateway reads of the SDK's position and open-order structures. \<open>EntryPx\<close>
  and \<open>LiquidationPx\<close> are pointers and may be \<open>nil\<close>.
\<close>

record hl_position =
  hp_Coin :: string
  hp_Szi :: string
  hp_EntryPx :: "string option"
  hp_LiquidationPx :: "string option"
  hp_PositionValue :: string
  hp_UnrealizedPnl :: string
  hp_LeverageValue :: int

record hl_open_order =
  oo_Coin :: string
  oo_Oid :: int

text \<open>
  The SDK calls the gateway makes, and the venue behind them: the answer to a call is
  given by the number of calls made before it; \<open>hl_calls\<close> is the trace of the calls.
  The answer to \<open>Cancel\<close> is only logged by the gateway and is left out.
\<close>

datatype hl_call =
    UserState string
  | OpenOrders string
  | Cancel string int
  | UpdateLeverage int string bool

record hl_world =
  hl_user_state :: "nat \<Rightarrow> error + hl_position list"
  hl_open_orders :: "nat \<Rightarrow> error + hl_open_order list"
  hl_update_leverage :: "nat \<Rightarrow> error option"
  hl_calls :: "hl_call list"

record HyperliquidTrader =
  walletAddr :: string

definition convertSymbolToHyperliquid :: "string \<Rightarrow> string" where
  "convertSymbolToHyperliquid symb =
     (if length symb > 4 \<and> drop (length symb - 4) symb = ''USDT''
      then take (length symb - 4) symb
      else symb)"

definition absFloat :: "float64 \<Rightarrow> float64" where
  "absFloat x = (if f_lt x f_zero then f_neg x else x)"

text \<open>The body of the loop in \<open>HyperliquidTrader.GetPositions\<close>; \<open>None\<close> is \<open>continue\<close>.\<close>

definition hl_position_map :: "golib \<Rightarrow> hl_position \<Rightarrow> position option" where
  "hl_position_map L pos =
     (let posAmt = strconv_ParseFloat L (hp_Szi pos)
      in if f_eq posAmt f_zero then None
         else (let entry = (case hp_EntryPx pos of
                              None \<Rightarrow> f_zero | Some s \<Rightarrow> strconv_ParseFloat L s);
                   liquidationPx = (case hp_LiquidationPx pos of
                              None \<Rightarrow> f_zero | Some s \<Rightarrow> strconv_ParseFloat L s);
                   positionValue = strconv_ParseFloat L (hp_PositionValue pos);
                   unrealizedPnl = strconv_ParseFloat L (hp_UnrealizedPnl pos);
                   mark = (if \<not> f_eq posAmt f_zero
                           then f_div L positionValue (absFloat posAmt) else f_zero)
               in Some \<lparr>symbol = JString (hp_Coin pos @ ''USDT''),
                         side = (if f_gt posAmt f_zero then ''long'' else ''short''),
                         positionAmt = (if f_gt posAmt f_zero then posAmt else f_neg posAmt),
                         entryPrice = entry, markPrice = mark,
                         unRealizedProfit = unrealizedPnl,
                         leverage = float64_of_int (hp_LeverageValue pos),
                         liquidationPrice = liquidationPx\<rparr>))"

definition hl_GetPositions ::
  "golib \<Rightarrow> HyperliquidTrader \<Rightarrow> hl_world \<Rightarrow> (error + position list) \<times> hl_world" where
  "hl_GetPositions L t w =
     (let w' = w\<lparr>hl_calls := hl_calls w @ [UserState (walletAddr t)]\<rparr>
      in case hl_user_state w (length (hl_calls w)) of
           Inl err \<Rightarrow> (Inl (msg_get_positions_failed @ err), w')
         | Inr assetPositions \<Rightarrow> (Inr (List.map_filter (hl_position_map L) assetPositions), w'))"

text \<open>\<open>HyperliquidTrader.SetLeverage\<close>: one \<open>UpdateLeverage\<close> call, isolated margin.\<close>

definition hl_SetLeverage ::
  "HyperliquidTrader \<Rightarrow> hl_world \<Rightarrow> string \<Rightarrow> int \<Rightarrow> error option \<times> hl_world" where
  "hl_SetLeverage t w symb lev =
     (let coin = convertSymbolToHyperliquid symb;
          w' = w\<lparr>hl_calls := hl_calls w @ [UpdateLeverage lev coin False]\<rparr>
      in case hl_update_leverage w (length (hl_calls w)) of
           Some err \<Rightarrow> (Some (msg_set_leverage_failed @ err), w')
         | None \<Rightarrow> (None, w'))"

text \<open>
  \<open>HyperliquidTrader.CancelAllOrders\<close>: every open order of the coin is cancelled; a
  failed cancellation is logged. \<open>CancelStopOrders\<close> is \<open>CancelAllOrders\<close>.
\<close>

fun hl_cancel_loop :: "hl_world \<Rightarrow> string \<Rightarrow> hl_open_order list \<Rightarrow> hl_world" where
  "hl_cancel_loop w coin [] = w"
| "hl_cancel_loop w coin (order # rest) =
     (if oo_Coin order = coin
      then hl_cancel_loop (w\<lparr>hl_calls := hl_calls w @ [Cancel coin (oo_Oid order)]\<rparr>) coin rest
      else hl_cancel_loop w coin rest)"

definition hl_CancelAllOrders ::
  "HyperliquidTrader \<Rightarrow> hl_world \<Rightarrow> string \<Rightarrow> error option \<times> hl_world" where
  "hl_CancelAllOrders t w symb =
     (let coin = convertSymbolToHyperliquid symb;
          w' = w\<lparr>hl_calls := hl_calls w @ [OpenOrders (walletAddr t)]\<rparr>
      in case hl_open_orders w (length (hl_calls w)) of
           Inl err \<Rightarrow> (Some (msg_open_orders_failed @ err), w')
         | Inr openOrders \<Rightarrow> (None, hl_cancel_loop w' coin openOrders))"

definition hl_CancelStopOrders ::
  "HyperliquidTrader \<Rightarrow> hl_world \<Rightarrow> string \<Rightarrow> error option \<times> hl_world" where
  "hl_CancelStopOrders t w symb = hl_CancelAllOrders t w symb"

section \<open>The API-key venue: \<open>FuturesTrader\<close>\<close>

text \<open>The string fields of the SDK's \<open>PositionRisk\<close> that the gateway reads.\<close>

record PositionRisk =
  pr_Symbol :: string
  pr_PositionAmt :: string
  pr_EntryPrice :: string
  pr_MarkPrice :: string
  pr_UnRealizedProfit :: string
  pr_Leverage :: string
  pr_LiquidationPrice :: string

datatype bn_call = GetPositionRisk | ChangeLeverage string int

text \<open>
  The venue behind the SDK, the monotonic clock (nanoseconds) read by \<open>time.Now\<close> and
  \<open>time.Since\<close>, and the trace of what the process did.
\<close>

record bn_world =
  bn_position_risk :: "nat \<Rightarrow> error + PositionRisk list"
  bn_change_leverage :: "nat \<Rightarrow> error option"
  bn_clock :: "nat \<Rightarrow> int"
  bn_reads :: nat
  bn_calls :: "bn_call list"
  bn_sleeps :: "nat list"

definition bn_time_Now :: "bn_world \<Rightarrow> int \<times> bn_world" where
  "bn_time_Now w = (bn_clock w (bn_reads w), w\<lparr>bn_reads := Suc (bn_reads w)\<rparr>)"

text \<open>
  The position cache of the trader. A \<open>nil\<close> slice is \<open>None\<close>; a result with no
  position is the \<open>nil\<close> slice, since nothing was appended to it.
\<close>

record FuturesTrader =
  cachedPositions :: "position list option"
  positionsCacheTime :: int
  cacheDuration :: int

definition NewFuturesTrader :: FuturesTrader where
  "NewFuturesTrader =
     \<lparr>cachedPositions = None, positionsCacheTime = 0, cacheDuration = 15 * 1000000000\<rparr>"

text \<open>The body of the loop in \<open>FuturesTrader.GetPositions\<close>; \<open>None\<close> is \<open>continue\<close>.\<close>

definition bn_position_map :: "golib \<Rightarrow> PositionRisk \<Rightarrow> position option" where
  "bn_position_map L pos =
     (let posAmt = strconv_ParseFloat L (pr_PositionAmt pos)
      in if f_eq posAmt f_zero then None
         else Some \<lparr>symbol = JString (pr_Symbol pos),
                    side = (if f_gt posAmt f_zero then ''long'' else ''short''),
                    positionAmt = strconv_ParseFloat L (pr_PositionAmt pos),
                    entryPrice = strconv_ParseFloat L (pr_EntryPrice pos),
                    markPrice = strconv_ParseFloat L (pr_MarkPrice pos),
                    unRealizedProfit = strconv_ParseFloat L (pr_UnRealizedProfit pos),
                    leverage = strconv_ParseFloat L (pr_Leverage pos),
                    liquidationPrice = strconv_ParseFloat L (pr_LiquidationPrice pos)\<rparr>)"

text \<open>The part of \<open>GetPositions\<close> after a cache miss.\<close>

definition bn_fetch_positions ::
  "golib \<Rightarrow> FuturesTrader \<Rightarrow> bn_world \<Rightarrow> (error + position list) \<times> FuturesTrader \<times> bn_world" where
  "bn_fetch_positions L t w =
     (let w1 = w\<lparr>bn_calls := bn_calls w @ [GetPositionRisk]\<rparr>
      in case bn_position_risk w (length (bn_calls w)) of
           Inl err \<Rightarrow> (Inl (msg_get_positions_failed @ err), t, w1)
         | Inr positions \<Rightarrow>
             (let result = List.map_filter (bn_position_map L) positions
              in case bn_time_Now w1 of (now, w2) \<Rightarrow>
                   (Inr result,
                    t\<lparr>cachedPositions := (if result = [] then None else Some result),
                      positionsCacheTime := now\<rparr>,
                    w2)))"

text \<open>
  \<open>FuturesTrader.GetPositions\<close>: the cached list while it is younger than
  \<open>cacheDuration\<close> (the clock is read once for the test and once for the log line),
  the venue's list otherwise.
\<close>

definition bn_GetPositions ::
  "golib \<Rightarrow> FuturesTrader \<Rightarrow> bn_world \<Rightarrow> (error + position list) \<times> FuturesTrader \<times> bn_world" where
  "bn_GetPositions L t w =
     (case cachedPositions t of
        None \<Rightarrow> bn_fetch_positions L t w
      | Some cached \<Rightarrow>
          (case bn_time_Now w of (now, w1) \<Rightarrow>
             (if now - positionsCacheTime t < cacheDuration t
              then (case bn_time_Now w1 of (now', w2) \<Rightarrow> (Inr cached, t, w2))
              else bn_fetch_positions L t w1)))"

text \<open>The helpers \<open>stringContains\<close> and \<open>contains\<close> of the source.\<close>

function stringContains_from :: "nat \<Rightarrow> string \<Rightarrow> string \<Rightarrow> bool" where
  "stringContains_from i s substr =
     (if int i \<le> int (length s) - int (length substr)
      then (if take (length substr) (drop i s) = substr then True
            else stringContains_from (Suc i) s substr)
      else False)"
  by pat_completeness auto
termination
  by (relation "measure (\<lambda>(i, s, substr). Suc (length s) - i)") auto

declare stringContains_from.simps [simp del]

definition stringContains :: "string \<Rightarrow> string \<Rightarrow> bool" where
  "stringContains s substr = stringContains_from 0 s substr"

definition contains :: "string \<Rightarrow> string \<Rightarrow> bool" where
  "contains s substr = (length s \<ge> length substr \<and> stringContains s substr)"

text \<open>
  The search for the current leverage in \<open>SetLeverage\<close>: the first position of the
  symbol decides; without one the current leverage stays 0.
\<close>

fun current_leverage :: "golib \<Rightarrow> string \<Rightarrow> position list \<Rightarrow> int" where
  "current_leverage L symb [] = 0"
| "current_leverage L symb (pos # rest) =
     (if symbol pos = JString symb then int_of_float64 L (leverage pos)
      else current_leverage L symb rest)"

text \<open>
  \<open>FuturesTrader.SetLeverage\<close>: nothing is sent when the current leverage is the
  target and positive. Otherwise the change is sent; the venue's answer
  "No need to change" counts as success, any other error is returned, and a successful
  change is followed by a sleep of five seconds.
\<close>

definition bn_SetLeverage ::
  "golib \<Rightarrow> FuturesTrader \<Rightarrow> bn_world \<Rightarrow> string \<Rightarrow> int \<Rightarrow> error option \<times> FuturesTrader \<times> bn_world" where
  "bn_SetLeverage L t w symb lev =
     (case bn_GetPositions L t w of (res, t1, w1) \<Rightarrow>
        (let currentLeverage = (case res of
                                  Inl err \<Rightarrow> 0
                                | Inr positions \<Rightarrow> current_leverage L symb positions)
         in if currentLeverage = lev \<and> currentLeverage > 0 then (None, t1, w1)
            else (let w2 = w1\<lparr>bn_calls := bn_calls w1 @ [ChangeLeverage symb lev]\<rparr>
                  in case bn_change_leverage w1 (length (bn_calls w1)) of
                       Some err \<Rightarrow>
                         (if contains err ''No need to change'' then (None, t1, w2)
                          else (Some (msg_set_leverage_failed @ err), t1, w2))
                     | None \<Rightarrow> (None, t1, w2\<lparr>bn_sleeps := bn_sleeps w2 @ [5]\<rparr>))))"

section \<open>Sample inputs for the scenarios\<close>

text \<open>
  A sample library for evaluating the model on concrete inputs: the number parser knows
  the few literals the scenarios use, and the arithmetic is exact on finite values.
\<close>

definition sample_ParseFloat :: "string \<Rightarrow> float64" where
  "sample_ParseFloat s =
     (if s = ''0.5'' then Finite (1 / 2)
      else if s = ''-0.5'' then Finite (- (1 / 2))
      else if s = ''0.01'' then Finite (1 / 100)
      else if s = ''10'' then Finite 10
      else if s = ''NaN'' then NaN
      else f_zero)"

fun sample_div :: "float64 \<Rightarrow> float64 \<Rightarrow> float64" where
  "sample_div (Finite x) (Finite y) = (if y = 0 then NaN else Finite (x / y))"
| "sample_div _ _ = NaN"

fun sample_mul :: "float64 \<Rightarrow> float64 \<Rightarrow> float64" where
  "sample_mul (Finite x) (Finite y) = Finite (x * y)"
| "sample_mul _ _ = NaN"

fun sample_Round :: "float64 \<Rightarrow> float64" where
  "sample_Round (Finite x) = Finite (of_int (if 0 \<le> x then \<lfloor>x + 1 / 2\<rfloor> else \<lceil>x - 1 / 2\<rceil>))"
| "sample_Round x = x"

definition sample_limit :: jobject where
  "sample_limit = [''type'' \<mapsto> JString ''LIMIT'', ''orderId'' \<mapsto> JNumber (Finite 101)]"

definition sample_stop :: jobject where
  "sample_stop = [''type'' \<mapsto> JString ''STOP_MARKET'', ''orderId'' \<mapsto> JNumber (Finite 102)]"

definition sample_take_profit :: jobject where
  "sample_take_profit =
     [''type'' \<mapsto> JString ''TAKE_PROFIT_MARKET'', ''orderId'' \<mapsto> JNumber (Finite 103)]"

definition sample_orders :: "jobject list" where
  "sample_orders = [sample_limit, sample_stop, sample_take_profit]"

definition sample_positions :: "jobject list" where
  "sample_positions =
     [[''symbol'' \<mapsto> JString ''BTCUSDT'', ''positionAmt'' \<mapsto> JString ''-0.5'',
       ''entryPrice'' \<mapsto> JString ''10'', ''markPrice'' \<mapsto> JString ''10'',
       ''unRealizedProfit'' \<mapsto> JString ''0'', ''leverage'' \<mapsto> JString ''10'',
       ''liquidationPrice'' \<mapsto> JString ''0''],
      [''symbol'' \<mapsto> JString ''ETHUSDT'', ''positionAmt'' \<mapsto> JString ''0'']]"

definition sample_lib :: golib where
  "sample_lib =
     \<lparr>json_objects = (\<lambda>body. if body = ''orders'' then Inr sample_orders
                             else if body = ''positions'' then Inr sample_positions
                             else Inr []),
      json_exchangeInfo = (\<lambda>body. Inr []),
      strconv_ParseFloat = sample_ParseFloat,
      f_div = sample_div, f_mul = sample_mul, math_Round = sample_Round,
      math_Pow10 = (\<lambda>n. Finite (if 0 \<le> n then 10 ^ nat n else 1 / 10 ^ nat (- n))),
      int_out_of_range = (\<lambda>x. - (2 ^ 63))\<rparr>"

definition sample_trader :: AsterTrader where
  "sample_trader =
     \<lparr>user = ''0xA1'', signer = ''0xB2'', privateKey = (\<lambda>ps nonce. Inr ''c3''),
      baseURL = ''https://fapi.asterdex.com'', symbolPrecision = Map.empty\<rparr>"

text \<open>A network on which every round trip times out before the response headers.\<close>

definition world_timeouts :: world where
  "world_timeouts =
     \<lparr>net = (\<lambda>n. TransportError ''net/http: timeout awaiting response headers''),
      clock = (\<lambda>n. 1700000000000000000 + 1000000000 * n), reads = 0,
      requests = [], sleeps = [], invocations = []\<rparr>"

text \<open>A venue that answers every request with status 200 and the given body.\<close>

definition world_ok :: "string \<Rightarrow> world" where
  "world_ok body =
     \<lparr>net = (\<lambda>n. Response 200 body),
      clock = (\<lambda>n. 1700000000000000000 + 1000000000 * n), reads = 0,
      requests = [], sleeps = [], invocations = []\<rparr>"

text \<open>A venue that lists the orders and then refuses every cancellation with status 400.\<close>

definition world_cancel_refused :: world where
  "world_cancel_refused =
     \<lparr>net = (\<lambda>n. if n = 0 then Response 200 ''orders'' else Response 400 ''rejected''),
      clock = (\<lambda>n. 1700000000000000000 + 1000000000 * n), reads = 0,
      requests = [], sleeps = [], invocations = []\<rparr>"

text \<open>
  Venues that report one short position of half a unit: the Binance SDK's answer with
  the venue's signed amount, and the Hyperliquid SDK's.
\<close>

definition sample_bn_world :: bn_world where
  "sample_bn_world =
     \<lparr>bn_position_risk = (\<lambda>n. Inr [\<lparr>pr_Symbol = ''BTCUSDT'', pr_PositionAmt = ''-0.5'',
                                       pr_EntryPrice = ''10'', pr_MarkPrice = ''10'',
                                       pr_UnRealizedProfit = ''0'', pr_Leverage = ''10'',
                                       pr_LiquidationPrice = ''0''\<rparr>]),
      bn_change_leverage = (\<lambda>n. None),
      bn_clock = (\<lambda>n. 1000000000 * int n), bn_reads = 0, bn_calls = [], bn_sleeps = []\<rparr>"

definition sample_hl_world :: hl_world where
  "sample_hl_world =
     \<lparr>hl_user_state = (\<lambda>n. Inr [\<lparr>hp_Coin = ''BTC'', hp_Szi = ''-0.5'', hp_EntryPx = Some ''10'',
                                    hp_LiquidationPx = None, hp_PositionValue = ''10'',
                                    hp_UnrealizedPnl = ''0'', hp_LeverageValue = 10\<rparr>]),
      hl_open_orders = (\<lambda>n. Inr []),
      hl_update_leverage = (\<lambda>n. None), hl_calls = []\<rparr>"

section \<open>The sequencer as a selection by exchange\<close>

text \<open>
  One pass of the inner loop, seen on the list from position \<open>i\<close> on: the element held
  at position \<open>i\<close> is exchanged with each later element of strictly smaller priority
  number; \<open>exch x rest\<close> is the element left at position \<open>i\<close> and the rest after the
  pass. \<open>esort\<close> repeats the pass on every suffix, as the outer loop does.
\<close>

fun exch :: "Decision \<Rightarrow> Decision list \<Rightarrow> Decision \<times> Decision list" where
  "exch x [] = (x, [])"
| "exch x (y # ys) =
     (if prio x > prio y
      then (fst (exch y ys), x # snd (exch y ys))
      else (fst (exch x ys), y # snd (exch x ys)))"

lemma length_exch [simp]: "length (snd (exch x xs)) = length xs"
  by (induction xs arbitrary: x) auto

lemma sort_inner_exch:
  "sort_inner (length pre) (Suc (length pre + length dn)) (pre @ x # dn @ rest) =
     pre @ fst (exch x rest) # dn @ snd (exch x rest)"
proof (induction rest arbitrary: x dn)
  case Nil
  show ?case by (subst sort_inner.simps) simp
next
  case (Cons y ys)
  have j: "Suc (length pre + length dn) < length (pre @ x # dn @ y # ys)" by simp
  have ri: "(pre @ x # dn @ y # ys) ! length pre = x" by simp
  have rj: "(pre @ x # dn @ y # ys) ! Suc (length pre + length dn) = y"
    by (simp add: nth_append)
  have sw: "(pre @ x # dn @ y # ys)[length pre := y, Suc (length pre + length dn) := x] =
            pre @ y # (dn @ [x]) @ ys"
    by (simp add: list_update_append)
  show ?case
  proof (cases "prio x > prio y")
    case True
    have "sort_inner (length pre) (Suc (length pre + length dn)) (pre @ x # dn @ y # ys) =
          sort_inner (length pre) (Suc (Suc (length pre + length dn))) (pre @ y # (dn @ [x]) @ ys)"
      apply (subst sort_inner.simps)
      using True j ri rj sw by (simp only: if_True)
    also have "\<dots> = pre @ fst (exch y ys) # (dn @ [x]) @ snd (exch y ys)"
      using Cons.IH [where x = y and dn = "dn @ [x]"] by simp
    finally show ?thesis using True by simp
  next
    case False
    have "sort_inner (length pre) (Suc (length pre + length dn)) (pre @ x # dn @ y # ys) =
          sort_inner (length pre) (Suc (Suc (length pre + length dn))) (pre @ x # (dn @ [y]) @ ys)"
      apply (subst sort_inner.simps)
      using False j ri rj by simp
    also have "\<dots> = pre @ fst (exch x ys) # (dn @ [y]) @ snd (exch x ys)"
      using Cons.IH [where x = x and dn = "dn @ [y]"] by simp
    finally show ?thesis using False by simp
  qed
qed

function esort :: "Decision list \<Rightarrow> Decision list" where
  "esort [] = []"
| "esort (x # xs) = fst (exch x xs) # esort (snd (exch x xs))"
  by pat_completeness auto
termination
  by (relation "measure length") auto

lemma sort_outer_esort:
  "sort_outer (length pre) (pre @ rest) = pre @ esort rest"
proof (induction rest arbitrary: pre rule: esort.induct)
  case 1
  show ?case by (subst sort_outer.simps) simp
next
  case (2 x xs)
  show ?case
  proof (cases xs)
    case Nil
    then show ?thesis by (subst sort_outer.simps) simp
  next
    case (Cons y ys)
    have "sort_outer (length pre) (pre @ x # xs) =
          sort_outer (Suc (length pre)) (sort_inner (length pre) (Suc (length pre)) (pre @ x # xs))"
      using Cons by (subst sort_outer.simps) simp
    also have "sort_inner (length pre) (Suc (length pre)) (pre @ x # xs) =
               pre @ fst (exch x xs) # snd (exch x xs)"
      using sort_inner_exch [of pre "[]" x xs] by simp
    also have "sort_outer (Suc (length pre)) (pre @ fst (exch x xs) # snd (exch x xs)) =
               (pre @ [fst (exch x xs)]) @ esort (snd (exch x xs))"
      using "2.IH" [of "pre @ [fst (exch x xs)]"] by simp
    finally show ?thesis by simp
  qed
qed

lemma sortDecisionsByPriority_esort: "sortDecisionsByPriority ds = esort ds"
proof (cases "length ds \<le> 1")
  case True
  then show ?thesis
    by (cases ds) (auto simp: sortDecisionsByPriority_def)
next
  case False
  then show ?thesis
    using sort_outer_esort [of "[]" ds] by (simp add: sortDecisionsByPriority_def)
qed

lemma mset_exch: "add_mset (fst (exch x xs)) (mset (snd (exch x xs))) = add_mset x (mset xs)"
  by (induction xs arbitrary: x) auto

lemma mset_esort: "mset (esort xs) = mset xs"
  by (induction xs rule: esort.induct) (auto simp: mset_exch)

lemma exch_le_head: "prio (fst (exch x xs)) \<le> prio x"
  by (induction xs arbitrary: x) (auto intro: order_trans less_imp_le)

lemma exch_le_rest: "z \<in> set (snd (exch x xs)) \<Longrightarrow> prio (fst (exch x xs)) \<le> prio z"
proof (induction xs arbitrary: x)
  case Nil
  then show ?case by simp
next
  case (Cons y ys)
  show ?case
  proof (cases "prio x > prio y")
    case True
    with Cons.prems have "z = x \<or> z \<in> set (snd (exch y ys))" by simp
    then show ?thesis
    proof
      assume "z = x"
      with True exch_le_head [of y ys] show ?thesis by simp
    next
      assume "z \<in> set (snd (exch y ys))"
      with True Cons.IH show ?thesis by simp
    qed
  next
    case False
    with Cons.prems have "z = y \<or> z \<in> set (snd (exch x ys))" by simp
    then show ?thesis
    proof
      assume "z = y"
      with False exch_le_head [of x ys] show ?thesis by simp
    next
      assume "z \<in> set (snd (exch x ys))"
      with False Cons.IH show ?thesis by simp
    qed
  qed
qed

lemma sorted_esort: "sorted_wrt (\<lambda>a b. prio a \<le> prio b) (esort xs)"
proof (induction xs rule: esort.induct)
  case 1
  show ?case by simp
next
  case (2 x xs)
  have "set (esort (snd (exch x xs))) = set (snd (exch x xs))"
    using mset_esort [of "snd (exch x xs)"] by (metis set_mset_mset)
  with 2 show ?case by (simp add: exch_le_rest)
qed

lemma exch_least: "\<forall>y\<in>set xs. prio x \<le> prio y \<Longrightarrow> exch x xs = (x, xs)"
  by (induction xs) auto

lemma esort_sorted_id: "sorted_wrt (\<lambda>a b. prio a \<le> prio b) xs \<Longrightarrow> esort xs = xs"
  by (induction xs) (auto simp: exch_least)

lemma precedes_nth:
  "precedes P Q xs \<longleftrightarrow>
     (\<forall>i j. i < j \<longrightarrow> j < length xs \<longrightarrow> \<not> (Q (xs ! i) \<and> P (xs ! j)))"
  by (simp add: precedes_def sorted_wrt_iff_nth_less)

lemma prio_cases:
  "prio d = (if is_close d then 1 else if is_open d then 2 else if is_idle d then 3 else 999)"
  by (simp add: getActionPriority_def is_close_def is_open_def is_idle_def)

lemma prio_le_iff:
  "prio a \<le> prio b \<longleftrightarrow>
     \<not> (is_open a \<and> is_close b) \<and> \<not> (is_idle a \<and> is_close b) \<and>
     \<not> (is_unknown a \<and> is_close b) \<and> \<not> (is_idle a \<and> is_open b) \<and>
     \<not> (is_unknown a \<and> is_open b) \<and> \<not> (is_unknown a \<and> is_idle b)"
  by (auto simp: prio_cases is_unknown_def is_close_def is_open_def is_idle_def)

lemma priority_ordered_iff:
  "priority_ordered xs \<longleftrightarrow> sorted_wrt (\<lambda>a b. prio a \<le> prio b) xs"
  unfolding priority_ordered_def precedes_def prio_le_iff
  by (induction xs) auto

lemma prio_ge_1: "1 \<le> prio d"
  by (simp add: getActionPriority_def)

lemma exch_close: "is_close x \<Longrightarrow> exch x xs = (x, xs)"
  using exch_least [of xs x] prio_ge_1 by (simp add: prio_cases)

lemma filter_close_exch:
  "filter is_close (fst (exch x xs) # snd (exch x xs)) = filter is_close (x # xs)"
proof (induction xs arbitrary: x)
  case Nil
  show ?case by simp
next
  case (Cons y ys)
  show ?case
  proof (cases "prio x > prio y")
    case True
    then have nx: "\<not> is_close x"
      using prio_ge_1 [of y] by (auto simp: prio_cases)
    have "filter is_close (fst (exch x (y # ys)) # snd (exch x (y # ys))) =
          filter is_close (fst (exch y ys) # x # snd (exch y ys))"
      using True by simp
    also have "\<dots> = filter is_close (fst (exch y ys) # snd (exch y ys))"
      using nx by simp
    also have "\<dots> = filter is_close (y # ys)"
      by (rule Cons.IH)
    also have "\<dots> = filter is_close (x # y # ys)"
      using nx by simp
    finally show ?thesis .
  next
    case False
    show ?thesis
    proof (cases "is_close x")
      case True
      then show ?thesis by (simp only: exch_close fst_conv snd_conv)
    next
      case nx: False
      with False have ny: "\<not> is_close y"
        by (auto simp: prio_cases split: if_splits)
      have "filter is_close (fst (exch x (y # ys)) # snd (exch x (y # ys))) =
            filter is_close (fst (exch x ys) # y # snd (exch x ys))"
        using False by simp
      also have "\<dots> = filter is_close (fst (exch x ys) # snd (exch x ys))"
        using ny by simp
      also have "\<dots> = filter is_close (x # ys)"
        by (rule Cons.IH)
      also have "\<dots> = filter is_close (x # y # ys)"
        using ny by simp
      finally show ?thesis .
    qed
  qed
qed

lemma filter_close_esort: "filter is_close (esort xs) = filter is_close xs"
proof (induction xs rule: esort.induct)
  case 1
  show ?case by simp
next
  case (2 x xs)
  have "filter is_close (esort (x # xs)) =
        filter is_close (fst (exch x xs) # snd (exch x xs))"
    using 2 by simp
  then show ?case by (simp only: filter_close_exch)
qed

text \<open>
  Claim C1. For every batch, \<open>sortDecisionsByPriority\<close> returns a rearrangement of the
  batch in which every close_long/close_short decision precedes every open_long/open_short
  decision, which precedes every hold/wait decision, with every other action last; a batch
  that is already in this order is returned unchanged, so sorting twice is sorting once;
  and \<open>[open_long(BTC), close_short(BTC), hold(ETH)]\<close> becomes
  \<open>[close_short(BTC), open_long(BTC), hold(ETH)]\<close>.
\<close>

theorem sequencer_closes_then_opens_then_idle:
  "priority_ordered (sortDecisionsByPriority ds) \<and>
   mset (sortDecisionsByPriority ds) = mset ds \<and>
   (priority_ordered ds \<longrightarrow> sortDecisionsByPriority ds = ds) \<and>
   sortDecisionsByPriority (sortDecisionsByPriority ds) = sortDecisionsByPriority ds \<and>
   sortDecisionsByPriority
     [intent ''open_long'' ''BTC'', intent ''close_short'' ''BTC'', intent ''hold'' ''ETH''] =
     [intent ''close_short'' ''BTC'', intent ''open_long'' ''BTC'', intent ''hold'' ''ETH'']"
proof -
  have ord: "priority_ordered (sortDecisionsByPriority ds)" for ds
    by (simp add: priority_ordered_iff sortDecisionsByPriority_esort sorted_esort)
  have idem: "priority_ordered ds \<Longrightarrow> sortDecisionsByPriority ds = ds" for ds
    by (simp add: priority_ordered_iff sortDecisionsByPriority_esort esort_sorted_id)
  have ex: "sortDecisionsByPriority
     [intent ''open_long'' ''BTC'', intent ''close_short'' ''BTC'', intent ''hold'' ''ETH''] =
     [intent ''close_short'' ''BTC'', intent ''open_long'' ''BTC'', intent ''hold'' ''ETH'']"
    by (simp add: sortDecisionsByPriority_esort getActionPriority_def intent_def)
  show ?thesis
    using ord idem [OF ord] idem ex
    by (simp add: sortDecisionsByPriority_esort mset_esort)
qed

theorem sequencer_closes_then_opens_then_idle_witness:
  "priority_ordered [intent ''close_short'' ''BTC'', intent ''open_long'' ''BTC'', intent ''hold'' ''ETH''] \<and>
   sortDecisionsByPriority
     [intent ''close_short'' ''BTC'', intent ''open_long'' ''BTC'', intent ''hold'' ''ETH''] =
     [intent ''close_short'' ''BTC'', intent ''open_long'' ''BTC'', intent ''hold'' ''ETH'']"
proof -
  have h: "priority_ordered
     [intent ''close_short'' ''BTC'', intent ''open_long'' ''BTC'', intent ''hold'' ''ETH'']"
    by (simp add: priority_ordered_def precedes_def is_close_def is_open_def is_idle_def
        is_unknown_def intent_def)
  with sequencer_closes_then_opens_then_idle
    [of "[intent ''close_short'' ''BTC'', intent ''open_long'' ''BTC'', intent ''hold'' ''ETH'']"]
  show ?thesis by blast
qed

text \<open>
  Claim C2, as stated, fails: the exchange moves the decision held at position \<open>i\<close>
  behind later decisions of its own class. With two opens before a close, the two opens
  leave in the opposite order.
\<close>

theorem sequencer_reorders_opens:
  "filter is_open (sortDecisionsByPriority
     [intent ''open_long'' ''BTC'', intent ''open_long'' ''ETH'', intent ''close_long'' ''SOL'']) =
     [intent ''open_long'' ''ETH'', intent ''open_long'' ''BTC''] \<and>
   filter is_open
     [intent ''open_long'' ''BTC'', intent ''open_long'' ''ETH'', intent ''close_long'' ''SOL''] =
     [intent ''open_long'' ''BTC'', intent ''open_long'' ''ETH'']"
  by (simp add: sortDecisionsByPriority_esort getActionPriority_def intent_def is_open_def)

text \<open>
  Claim C2, amended. Every class keeps its decisions (as a multiset); the close_long and
  close_short decisions keep their relative order for every batch; the decisions of the
  other classes keep their relative order when the batch is already in priority order.
\<close>

theorem sequencer_class_contents:
  "mset (filter is_close (sortDecisionsByPriority ds)) = mset (filter is_close ds) \<and>
   mset (filter is_open (sortDecisionsByPriority ds)) = mset (filter is_open ds) \<and>
   mset (filter is_idle (sortDecisionsByPriority ds)) = mset (filter is_idle ds) \<and>
   mset (filter is_unknown (sortDecisionsByPriority ds)) = mset (filter is_unknown ds) \<and>
   filter is_close (sortDecisionsByPriority ds) = filter is_close ds \<and>
   (priority_ordered ds \<longrightarrow>
      filter is_open (sortDecisionsByPriority ds) = filter is_open ds \<and>
      filter is_idle (sortDecisionsByPriority ds) = filter is_idle ds \<and>
      filter is_unknown (sortDecisionsByPriority ds) = filter is_unknown ds)"
proof -
  have m: "mset (filter P (sortDecisionsByPriority ds)) = mset (filter P ds)" for P
    by (simp add: sortDecisionsByPriority_esort mset_esort)
  have c: "filter is_close (sortDecisionsByPriority ds) = filter is_close ds"
    by (simp add: sortDecisionsByPriority_esort filter_close_esort)
  have i: "priority_ordered ds \<Longrightarrow> sortDecisionsByPriority ds = ds"
    by (simp add: priority_ordered_iff sortDecisionsByPriority_esort esort_sorted_id)
  show ?thesis using m c i by simp
qed

theorem sequencer_class_contents_witness:
  "priority_ordered
     [intent ''close_short'' ''BTC'', intent ''open_long'' ''BTC'', intent ''open_short'' ''ETH''] \<and>
   filter is_open (sortDecisionsByPriority
     [intent ''close_short'' ''BTC'', intent ''open_long'' ''BTC'', intent ''open_short'' ''ETH'']) =
     [intent ''open_long'' ''BTC'', intent ''open_short'' ''ETH'']"
proof -
  have h: "priority_ordered
     [intent ''close_short'' ''BTC'', intent ''open_long'' ''BTC'', intent ''open_short'' ''ETH'']"
    by (simp add: priority_ordered_def precedes_def is_close_def is_open_def is_idle_def
        is_unknown_def intent_def)
  have f: "filter is_open
     [intent ''close_short'' ''BTC'', intent ''open_long'' ''BTC'', intent ''open_short'' ''ETH''] =
     [intent ''open_long'' ''BTC'', intent ''open_short'' ''ETH'']"
    by (simp add: is_open_def intent_def)
  from sequencer_class_contents
    [of "[intent ''close_short'' ''BTC'', intent ''open_long'' ''BTC'', intent ''open_short'' ''ETH'']"]
    h
  have "filter is_open (sortDecisionsByPriority
     [intent ''close_short'' ''BTC'', intent ''open_long'' ''BTC'', intent ''open_short'' ''ETH'']) =
     filter is_open
     [intent ''close_short'' ''BTC'', intent ''open_long'' ''BTC'', intent ''open_short'' ''ETH'']"
    by blast
  with h f show ?thesis by simp
qed

section \<open>Properties of the retrying transport\<close>

lemma genNonce_fields [simp]:
  "invocations (snd (genNonce w)) = invocations w"
  "requests (snd (genNonce w)) = requests w"
  "sleeps (snd (genNonce w)) = sleeps w"
  by (simp_all add: genNonce_def time_Now_def)

lemma sign_fields [simp]:
  "invocations (snd (sign t w ps n)) = invocations w"
  "requests (snd (sign t w ps n)) = requests w"
  "sleeps (snd (sign t w ps n)) = sleeps w"
  by (simp_all add: sign_def time_Now_def Let_def split: sum.splits)

lemma http_round_trip_fields [simp]:
  "invocations (snd (http_round_trip w req)) = invocations w"
  "requests (snd (http_round_trip w req)) = requests w @ [req]"
  "sleeps (snd (http_round_trip w req)) = sleeps w"
  by (simp_all add: http_round_trip_def Let_def split: http_result.splits)

lemma doRequest_fields [simp]:
  "invocations (snd (doRequest t w m e ps)) = invocations w"
  "sleeps (snd (doRequest t w m e ps)) = sleeps w"
  by (simp_all add: doRequest_def Let_def)

lemma doRequest_requests:
  "length (requests (snd (doRequest t w m e ps))) \<le> Suc (length (requests w))"
  by (simp add: doRequest_def Let_def)

lemma time_Sleep_fields [simp]:
  "invocations (time_Sleep n w) = invocations w"
  "requests (time_Sleep n w) = requests w"
  "sleeps (time_Sleep n w) = sleeps w @ [n]"
  by (simp_all add: time_Sleep_def)

lemma request_loop_invocations:
  "invocations (snd (request_loop t w m e ps attempt lastErr)) = invocations w"
proof (induction t w m e ps attempt lastErr rule: request_loop.induct)
  case (1 t w m e ps attempt lastErr)
  obtain nonce w1 where g: "genNonce w = (nonce, w1)" by (cases "genNonce w")
  obtain sr w2 where s: "sign t w1 ps nonce = (sr, w2)" by (cases "sign t w1 ps nonce")
  have i1: "invocations w1 = invocations w" using genNonce_fields(1) [of w] g by simp
  have i2: "invocations w2 = invocations w1" using sign_fields(1) [of t w1 ps nonce] s by simp
  show ?case
  proof (cases "attempt \<le> maxRetries")
    case False
    then show ?thesis by (subst request_loop.simps) simp
  next
    case True
    show ?thesis
    proof (cases sr)
      case (Inl err)
      with True g s i1 i2 show ?thesis by (subst request_loop.simps) simp
    next
      case (Inr signed)
      obtain dr w3 where d: "doRequest t w2 m e signed = (dr, w3)"
        by (cases "doRequest t w2 m e signed")
      have i3: "invocations w3 = invocations w2"
        using doRequest_fields(1) [of t w2 m e signed] d by simp
      show ?thesis
      proof (cases dr)
        case (Inr body)
        with True g s Inr d i1 i2 i3 \<open>sr = Inr signed\<close> show ?thesis
          by (subst request_loop.simps) simp
      next
        case (Inl err)
        show ?thesis
        proof (cases "(strings_Contains err ''timeout'' \<or> strings_Contains err ''connection reset'' \<or>
                       strings_Contains err ''EOF'') \<and> attempt < maxRetries")
          case False
          with True g s Inl d i1 i2 i3 \<open>sr = Inr signed\<close> show ?thesis
            by (subst request_loop.simps) auto
        next
          case retry: True
          have "invocations (snd (request_loop t (time_Sleep attempt w3) m e ps (Suc attempt) (Some err)))
                = invocations (time_Sleep attempt w3)"
            using "1.IH" [OF True g [symmetric] refl s [symmetric] \<open>sr = Inr signed\<close> d [symmetric] Inl retry] .
          with True g s Inl d i1 i2 i3 \<open>sr = Inr signed\<close> retry show ?thesis
            by (subst request_loop.simps) auto
        qed
      qed
    qed
  qed
qed

lemma request_invocations:
  "invocations (snd (request t w m e ps)) = invocations w @ [(m, e, ps)]"
  by (simp add: request_def request_loop_invocations)

lemma request_loop_round_trips:
  "length (requests (snd (request_loop t w m e ps attempt lastErr))) \<le>
     length (requests w) + (Suc maxRetries - attempt)"
proof (induction t w m e ps attempt lastErr rule: request_loop.induct)
  case (1 t w m e ps attempt lastErr)
  obtain nonce w1 where g: "genNonce w = (nonce, w1)" by (cases "genNonce w")
  obtain sr w2 where s: "sign t w1 ps nonce = (sr, w2)" by (cases "sign t w1 ps nonce")
  have i1: "requests w1 = requests w" using genNonce_fields(2) [of w] g by simp
  have i2: "requests w2 = requests w1" using sign_fields(2) [of t w1 ps nonce] s by simp
  show ?case
  proof (cases "attempt \<le> maxRetries")
    case False
    then show ?thesis by (subst request_loop.simps) simp
  next
    case True
    show ?thesis
    proof (cases sr)
      case (Inl err)
      with True g s i1 i2 show ?thesis by (subst request_loop.simps) simp
    next
      case (Inr signed)
      obtain dr w3 where d: "doRequest t w2 m e signed = (dr, w3)"
        by (cases "doRequest t w2 m e signed")
      have i3: "length (requests w3) \<le> Suc (length (requests w2))"
        using doRequest_requests [of t w2 m e signed] d by simp
      show ?thesis
      proof (cases dr)
        case (Inr body)
        with True g s Inr d i1 i2 i3 \<open>sr = Inr signed\<close> show ?thesis
          by (subst request_loop.simps) simp
      next
        case (Inl err)
        show ?thesis
        proof (cases "(strings_Contains err ''timeout'' \<or> strings_Contains err ''connection reset'' \<or>
                       strings_Contains err ''EOF'') \<and> attempt < maxRetries")
          case False
          with True g s Inl d i1 i2 i3 \<open>sr = Inr signed\<close> show ?thesis
            by (subst request_loop.simps) auto
        next
          case retry: True
          have "length (requests (snd (request_loop t (time_Sleep attempt w3) m e ps (Suc attempt) (Some err))))
                \<le> length (requests (time_Sleep attempt w3)) + (Suc maxRetries - Suc attempt)"
            using "1.IH" [OF True g [symmetric] refl s [symmetric] \<open>sr = Inr signed\<close> d [symmetric] Inl retry] .
          with True g s Inl d i1 i2 i3 \<open>sr = Inr signed\<close> retry show ?thesis
            by (subst request_loop.simps) auto
        qed
      qed
    qed
  qed
qed

lemma request_at_most_three_round_trips:
  "length (requests (snd (request t w m e ps))) \<le> length (requests w) + 3"
  using request_loop_round_trips
    [of t "w\<lparr>invocations := invocations w @ [(m, e, ps)]\<rparr>" m e ps 1 None]
  by (simp add: request_def maxRetries_def)

lemmas request_eval =
  request_def request_loop.simps maxRetries_def genNonce_def time_Now_def sign_def
  doRequest_def http_round_trip_def time_Sleep_def strings_ToUpper_def upper_char_def Let_def

text \<open>
  A status other than 200 whose body carries one of the markers is retried like a
  transport error: a 504 with the body "gateway timeout" followed by a 200 makes two
  round trips of the same POST.
\<close>

lemma request_retries_status_with_marker:
  "fst (request sample_trader
          (world_ok ''done''\<lparr>net := (\<lambda>n. if n = 0 then Response 504 ''gateway timeout''
                                          else Response 200 ''done'')\<rparr>)
          ''POST'' ''/fapi/v3/order'' [''symbol'' \<mapsto> VString ''BTCUSDT'']) = Inr ''done'' \<and>
   length (requests (snd (request sample_trader
          (world_ok ''done''\<lparr>net := (\<lambda>n. if n = 0 then Response 504 ''gateway timeout''
                                          else Response 200 ''done'')\<rparr>)
          ''POST'' ''/fapi/v3/order'' [''symbol'' \<mapsto> VString ''BTCUSDT'']))) = 2"
  by (simp add: request_eval world_ok_def sample_trader_def show_nat.simps digit_char_def)

text \<open>
  The nonce of an attempt is the clock reading at its start, in microseconds: on the
  sample clock, which advances one second per reading, the three attempts carry the
  readings number 0, 2 and 4 (the readings in between are the timestamps of \<open>sign\<close>).
\<close>

lemma request_nonce_is_clock_reading:
  "map (\<lambda>r. w_params r ''nonce'')
     (requests (snd (request sample_trader world_timeouts ''POST'' ''/fapi/v3/order''
        [''symbol'' \<mapsto> VString ''BTCUSDT'']))) =
     [Some (VUint64 1700000000000000), Some (VUint64 1700000002000000),
      Some (VUint64 1700000004000000)]"
  by (simp add: request_eval world_timeouts_def sample_trader_def)

text \<open>
  Claim C4, evaluated where it fails. All three round trips of one call time out. The
  call makes three round trips and sleeps one and then two seconds, as the claim says;
  but what it returns is the error of the third round trip as it is, not the error that
  wraps it with the text of the exhausted retries: on the last attempt the branch that
  would continue the loop is not taken, and the \<open>return nil, err\<close> below it is.
\<close>

theorem request_exhausted_returns_last_error_unwrapped:
  "fst (request sample_trader world_timeouts ''POST'' ''/fapi/v3/order''
          [''symbol'' \<mapsto> VString ''BTCUSDT'']) =
     Inl ''net/http: timeout awaiting response headers'' \<and>
   fst (request sample_trader world_timeouts ''POST'' ''/fapi/v3/order''
          [''symbol'' \<mapsto> VString ''BTCUSDT'']) \<noteq>
     Inl (retry_exhausted (Some ''net/http: timeout awaiting response headers'')) \<and>
   length (requests (snd (request sample_trader world_timeouts ''POST'' ''/fapi/v3/order''
          [''symbol'' \<mapsto> VString ''BTCUSDT'']))) = 3 \<and>
   sleeps (snd (request sample_trader world_timeouts ''POST'' ''/fapi/v3/order''
          [''symbol'' \<mapsto> VString ''BTCUSDT''])) = [1, 2]"
proof -
  have r: "fst (request sample_trader world_timeouts ''POST'' ''/fapi/v3/order''
          [''symbol'' \<mapsto> VString ''BTCUSDT'']) =
     Inl ''net/http: timeout awaiting response headers''"
    by (simp add: request_eval world_timeouts_def sample_trader_def)
  have n: "length (requests (snd (request sample_trader world_timeouts ''POST'' ''/fapi/v3/order''
          [''symbol'' \<mapsto> VString ''BTCUSDT'']))) = 3"
    by (simp add: request_eval world_timeouts_def sample_trader_def)
  have s: "sleeps (snd (request sample_trader world_timeouts ''POST'' ''/fapi/v3/order''
          [''symbol'' \<mapsto> VString ''BTCUSDT''])) = [1, 2]"
    by (simp add: request_eval world_timeouts_def sample_trader_def)
  have d: "''net/http: timeout awaiting response headers'' \<noteq>
           retry_exhausted (Some ''net/http: timeout awaiting response headers'')"
    by (simp add: retry_exhausted_def msg_request_failed_a_def)
  show ?thesis using r n s d by simp
qed

section \<open>Cancelling stop and take-profit orders\<close>

definition cancel_call :: "golib \<Rightarrow> string \<Rightarrow> jobject \<Rightarrow> string \<times> string \<times> params" where
  "cancel_call L symb order =
     (''DELETE'', ''/fapi/v3/order'',
      [''symbol'' \<mapsto> VString symb, ''orderId'' \<mapsto> VInt (order_id L order)])"

lemma aster_cancel_loop_invocations:
  "invocations (snd (aster_cancel_loop L t w symb orders n)) =
     invocations w @
     map (cancel_call L symb) (filter (\<lambda>order. is_stop_type (order_type order)) orders)"
proof (induction orders arbitrary: w n)
  case Nil
  show ?case by simp
next
  case (Cons order rest)
  show ?case
  proof (cases "is_stop_type (order_type order)")
    case False
    then show ?thesis using Cons.IH by simp
  next
    case True
    let ?ps = "[''symbol'' \<mapsto> VString symb, ''orderId'' \<mapsto> VInt (order_id L order)]"
    obtain r w' where rq: "request t w ''DELETE'' ''/fapi/v3/order'' ?ps = (r, w')"
      by (cases "request t w ''DELETE'' ''/fapi/v3/order'' ?ps")
    have inv: "invocations w' = invocations w @ [cancel_call L symb order]"
      using request_invocations [of t w "''DELETE''" "''/fapi/v3/order''" ?ps] rq
      by (simp add: cancel_call_def)
    show ?thesis
    proof (cases r)
      case (Inl err)
      with True rq inv Cons.IH [of w' n] show ?thesis by simp
    next
      case (Inr body)
      with True rq inv Cons.IH [of w' "Suc n"] show ?thesis by simp
    qed
  qed
qed

lemma hl_cancel_loop_calls:
  "hl_calls (hl_cancel_loop w coin orders) =
     hl_calls w @ map (\<lambda>order. Cancel coin (oo_Oid order)) (filter (\<lambda>order. oo_Coin order = coin) orders)"
  by (induction orders arbitrary: w) simp_all

text \<open>
  Claim C9, as stated, fails on the Hyperliquid backend: its \<open>CancelStopOrders\<close> is
  \<open>CancelAllOrders\<close>, so with a resting limit order, a stop-market order and a
  take-profit-market order open on the coin it cancels all three.
\<close>

theorem hyperliquid_cancels_limit_order_too:
  "hl_calls (snd (hl_CancelStopOrders \<lparr>walletAddr = ''0xA1''\<rparr>
       \<lparr>hl_user_state = (\<lambda>n. Inr []),
        hl_open_orders = (\<lambda>n. Inr [\<lparr>oo_Coin = ''BTC'', oo_Oid = 101\<rparr>,
                                     \<lparr>oo_Coin = ''BTC'', oo_Oid = 102\<rparr>,
                                     \<lparr>oo_Coin = ''BTC'', oo_Oid = 103\<rparr>]),
        hl_update_leverage = (\<lambda>n. None), hl_calls = []\<rparr> ''BTCUSDT'')) =
     [OpenOrders ''0xA1'', Cancel ''BTC'' 101, Cancel ''BTC'' 102, Cancel ''BTC'' 103]"
  by (simp add: hl_CancelStopOrders_def hl_CancelAllOrders_def convertSymbolToHyperliquid_def Let_def)

text \<open>
  Claim C9, amended. On the Aster backend, once the open orders have been fetched and
  decoded, \<open>CancelStopOrders\<close> returns success and issues one cancel call for each
  order of type STOP, STOP_MARKET, TAKE_PROFIT or TAKE_PROFIT_MARKET, in order, and none
  for any other order, whatever the cancel calls answer: with one limit, one
  stop-market and one take-profit-market order that is two cancel calls. On the
  Hyperliquid backend, once the open orders have been fetched, \<open>CancelStopOrders\<close>
  returns success and issues one cancel call for every open order of the coin, the
  limit order included.
\<close>

theorem cancel_stop_orders_calls:
  "(request t w ''GET'' ''/fapi/v3/openOrders'' [''symbol'' \<mapsto> VString symb] = (Inr body, w1) \<and>
    json_objects L body = Inr orders \<longrightarrow>
      fst (aster_CancelStopOrders L t w symb) = None \<and>
      invocations (snd (aster_CancelStopOrders L t w symb)) =
        invocations w1 @
        map (cancel_call L symb) (filter (\<lambda>order. is_stop_type (order_type order)) orders)) \<and>
   (request t w ''GET'' ''/fapi/v3/openOrders'' [''symbol'' \<mapsto> VString symb] = (Inr body, w1) \<and>
    json_objects L body = Inr [o1, o2, o3] \<and>
    order_type o1 = ''LIMIT'' \<and> order_type o2 = ''STOP_MARKET'' \<and>
    order_type o3 = ''TAKE_PROFIT_MARKET'' \<longrightarrow>
      fst (aster_CancelStopOrders L t w symb) = None \<and>
      invocations (snd (aster_CancelStopOrders L t w symb)) =
        invocations w1 @ [cancel_call L symb o2, cancel_call L symb o3]) \<and>
   (hl_open_orders hw (length (hl_calls hw)) = Inr openOrders \<longrightarrow>
      fst (hl_CancelStopOrders ht hw symb) = None \<and>
      hl_calls (snd (hl_CancelStopOrders ht hw symb)) =
        hl_calls hw @ [OpenOrders (walletAddr ht)] @
        map (\<lambda>order. Cancel (convertSymbolToHyperliquid symb) (oo_Oid order))
          (filter (\<lambda>order. oo_Coin order = convertSymbolToHyperliquid symb) openOrders))"
proof -
  have a: "fst (aster_CancelStopOrders L t w symb) = None \<and>
        invocations (snd (aster_CancelStopOrders L t w symb)) =
          invocations w1 @
          map (cancel_call L symb) (filter (\<lambda>order. is_stop_type (order_type order)) os)"
    if "request t w ''GET'' ''/fapi/v3/openOrders'' [''symbol'' \<mapsto> VString symb] = (Inr body, w1)"
      and "json_objects L body = Inr os" for os
    using that by (simp add: aster_CancelStopOrders_def aster_cancel_loop_invocations)
  have b: "fst (aster_CancelStopOrders L t w symb) = None \<and>
        invocations (snd (aster_CancelStopOrders L t w symb)) =
          invocations w1 @ [cancel_call L symb o2, cancel_call L symb o3]"
    if "request t w ''GET'' ''/fapi/v3/openOrders'' [''symbol'' \<mapsto> VString symb] = (Inr body, w1)"
      and "json_objects L body = Inr [o1, o2, o3]"
      and "order_type o1 = ''LIMIT''" and "order_type o2 = ''STOP_MARKET''"
      and "order_type o3 = ''TAKE_PROFIT_MARKET''"
    using a [OF that(1) that(2)] that(3-5) by (simp add: is_stop_type_def)
  have c: "fst (hl_CancelStopOrders ht hw symb) = None \<and>
      hl_calls (snd (hl_CancelStopOrders ht hw symb)) =
        hl_calls hw @ [OpenOrders (walletAddr ht)] @
        map (\<lambda>order. Cancel (convertSymbolToHyperliquid symb) (oo_Oid order))
          (filter (\<lambda>order. oo_Coin order = convertSymbolToHyperliquid symb) openOrders)"
    if "hl_open_orders hw (length (hl_calls hw)) = Inr openOrders"
    using that
    by (simp add: hl_CancelStopOrders_def hl_CancelAllOrders_def Let_def hl_cancel_loop_calls)
  show ?thesis using a b c by blast
qed

lemma sample_list_request:
  "request sample_trader world_cancel_refused ''GET'' ''/fapi/v3/openOrders''
     [''symbol'' \<mapsto> VString ''BTCUSDT''] =
   (Inr ''orders'',
    snd (request sample_trader world_cancel_refused ''GET'' ''/fapi/v3/openOrders''
           [''symbol'' \<mapsto> VString ''BTCUSDT'']))"
proof -
  have "fst (request sample_trader world_cancel_refused ''GET'' ''/fapi/v3/openOrders''
               [''symbol'' \<mapsto> VString ''BTCUSDT'']) = Inr ''orders''"
    by (simp add: request_eval world_cancel_refused_def sample_trader_def)
  then show ?thesis by (metis prod.collapse)
qed

theorem cancel_stop_orders_calls_witness:
  "fst (aster_CancelStopOrders sample_lib sample_trader world_cancel_refused ''BTCUSDT'') = None \<and>
   invocations (snd (aster_CancelStopOrders sample_lib sample_trader world_cancel_refused ''BTCUSDT'')) =
     [(''GET'', ''/fapi/v3/openOrders'', [''symbol'' \<mapsto> VString ''BTCUSDT'']),
      (''DELETE'', ''/fapi/v3/order'', [''symbol'' \<mapsto> VString ''BTCUSDT'', ''orderId'' \<mapsto> VInt 102]),
      (''DELETE'', ''/fapi/v3/order'', [''symbol'' \<mapsto> VString ''BTCUSDT'', ''orderId'' \<mapsto> VInt 103])] \<and>
   fst (hl_CancelStopOrders \<lparr>walletAddr = ''0xA1''\<rparr>
       \<lparr>hl_user_state = (\<lambda>n. Inr []),
        hl_open_orders = (\<lambda>n. Inr [\<lparr>oo_Coin = ''BTC'', oo_Oid = 101\<rparr>, \<lparr>oo_Coin = ''ETH'', oo_Oid = 7\<rparr>]),
        hl_update_leverage = (\<lambda>n. None), hl_calls = []\<rparr> ''BTCUSDT'') = None \<and>
   hl_calls (snd (hl_CancelStopOrders \<lparr>walletAddr = ''0xA1''\<rparr>
       \<lparr>hl_user_state = (\<lambda>n. Inr []),
        hl_open_orders = (\<lambda>n. Inr [\<lparr>oo_Coin = ''BTC'', oo_Oid = 101\<rparr>, \<lparr>oo_Coin = ''ETH'', oo_Oid = 7\<rparr>]),
        hl_update_leverage = (\<lambda>n. None), hl_calls = []\<rparr> ''BTCUSDT'')) =
     [OpenOrders ''0xA1'', Cancel ''BTC'' 101]"
proof -
  let ?w1 = "snd (request sample_trader world_cancel_refused ''GET'' ''/fapi/v3/openOrders''
           [''symbol'' \<mapsto> VString ''BTCUSDT''])"
  let ?hw = "\<lparr>hl_user_state = (\<lambda>n. Inr []),
        hl_open_orders = (\<lambda>n. Inr [\<lparr>oo_Coin = ''BTC'', oo_Oid = 101\<rparr>, \<lparr>oo_Coin = ''ETH'', oo_Oid = 7\<rparr>]),
        hl_update_leverage = (\<lambda>n. None), hl_calls = []\<rparr>"
  have j: "json_objects sample_lib ''orders'' =
     Inr [sample_limit, sample_stop, sample_take_profit]"
    by (simp add: sample_lib_def sample_orders_def)
  have ty: "order_type (sample_limit) = ''LIMIT''"
    "order_type (sample_stop) = ''STOP_MARKET''"
    "order_type (sample_take_profit) = ''TAKE_PROFIT_MARKET''"
    by (simp_all add: sample_limit_def sample_stop_def sample_take_profit_def order_type_def)
  have inv1: "invocations ?w1 = [(''GET'', ''/fapi/v3/openOrders'', [''symbol'' \<mapsto> VString ''BTCUSDT''])]"
    by (simp add: request_invocations world_cancel_refused_def)
  have ids: "cancel_call sample_lib ''BTCUSDT'' (sample_stop) =
      (''DELETE'', ''/fapi/v3/order'', [''symbol'' \<mapsto> VString ''BTCUSDT'', ''orderId'' \<mapsto> VInt 102])"
    "cancel_call sample_lib ''BTCUSDT'' (sample_take_profit) =
      (''DELETE'', ''/fapi/v3/order'', [''symbol'' \<mapsto> VString ''BTCUSDT'', ''orderId'' \<mapsto> VInt 103])"
    by (simp_all add: cancel_call_def order_id_def sample_stop_def sample_take_profit_def
        trunc_zero_def)
  have h: "hl_open_orders ?hw (length (hl_calls ?hw)) =
      Inr [\<lparr>oo_Coin = ''BTC'', oo_Oid = 101\<rparr>, \<lparr>oo_Coin = ''ETH'', oo_Oid = 7\<rparr>]"
    by simp
  have cv: "convertSymbolToHyperliquid ''BTCUSDT'' = ''BTC''"
    by (simp add: convertSymbolToHyperliquid_def)
  from cancel_stop_orders_calls
    [of sample_trader world_cancel_refused "''BTCUSDT''" "''orders''" ?w1 sample_lib
        "[sample_limit, sample_stop, sample_take_profit]"
        "sample_limit" "sample_stop" "sample_take_profit" ?hw
        "[\<lparr>oo_Coin = ''BTC'', oo_Oid = 101\<rparr>, \<lparr>oo_Coin = ''ETH'', oo_Oid = 7\<rparr>]"
        "\<lparr>walletAddr = ''0xA1''\<rparr>"]
    sample_list_request j ty h
  have "fst (aster_CancelStopOrders sample_lib sample_trader world_cancel_refused ''BTCUSDT'') = None \<and>
      invocations (snd (aster_CancelStopOrders sample_lib sample_trader world_cancel_refused ''BTCUSDT'')) =
        invocations ?w1 @ [cancel_call sample_lib ''BTCUSDT'' (sample_stop),
                           cancel_call sample_lib ''BTCUSDT'' (sample_take_profit)] \<and>
      fst (hl_CancelStopOrders \<lparr>walletAddr = ''0xA1''\<rparr> ?hw ''BTCUSDT'') = None \<and>
      hl_calls (snd (hl_CancelStopOrders \<lparr>walletAddr = ''0xA1''\<rparr> ?hw ''BTCUSDT'')) =
        hl_calls ?hw @ [OpenOrders (walletAddr \<lparr>walletAddr = ''0xA1''\<rparr>)] @
        map (\<lambda>order. Cancel (convertSymbolToHyperliquid ''BTCUSDT'') (oo_Oid order))
          (filter (\<lambda>order. oo_Coin order = convertSymbolToHyperliquid ''BTCUSDT'')
             [\<lparr>oo_Coin = ''BTC'', oo_Oid = 101\<rparr>, \<lparr>oo_Coin = ''ETH'', oo_Oid = 7\<rparr>])"
    by blast
  then show ?thesis by (simp add: inv1 ids cv)
qed

section \<open>Positions returned by the backends\<close>

definition side_ok :: "position \<Rightarrow> bool" where
  "side_ok p = (side p = ''long'' \<or> side p = ''short'')"

text \<open>
  A normalized position: the side is long or short and the quantity is not zero and not
  negative; it is strictly positive unless the venue's amount was not a number.
\<close>

definition normalized :: "position \<Rightarrow> bool" where
  "normalized p =
     (side_ok p \<and> \<not> f_le (positionAmt p) f_zero \<and>
      (positionAmt p \<noteq> NaN \<longrightarrow> f_gt (positionAmt p) f_zero))"

text \<open>
  A position in the venue's signed convention: the side is long or short, the quantity
  is not zero, a long position has a positive quantity and a short position a negative
  one (or one that was not a number).
\<close>

definition signed_amount :: "position \<Rightarrow> bool" where
  "signed_amount p =
     (side_ok p \<and> \<not> f_eq (positionAmt p) f_zero \<and>
      (side p = ''long'' \<longleftrightarrow> f_gt (positionAmt p) f_zero) \<and>
      (positionAmt p \<noteq> NaN \<longrightarrow> (side p = ''short'' \<longleftrightarrow> f_lt (positionAmt p) f_zero)))"

definition cache_signed :: "FuturesTrader \<Rightarrow> bool" where
  "cache_signed t = (case cachedPositions t of None \<Rightarrow> True | Some ps \<Rightarrow> list_all signed_amount ps)"

lemma f_lt_zero_neg: "f_lt x f_zero \<Longrightarrow> f_lt f_zero (f_neg x)"
  by (cases x) simp_all

lemma f_trichotomy: "x \<noteq> NaN \<Longrightarrow> \<not> f_eq x f_zero \<Longrightarrow> \<not> f_lt x f_zero \<Longrightarrow> f_lt f_zero x"
  by (cases x) auto

lemma f_lt_asym: "f_lt f_zero x \<Longrightarrow> \<not> f_lt x f_zero \<and> \<not> f_eq x f_zero"
  by (cases x) auto

lemma f_neg_NaN: "f_neg x = NaN \<longleftrightarrow> x = NaN"
  by (cases x) simp_all

lemma f_eq_neg_zero: "f_eq (f_neg x) f_zero \<longleftrightarrow> f_eq x f_zero"
  by (cases x) auto

lemma f_lt_neg_zero: "f_lt (f_neg x) f_zero \<longleftrightarrow> f_lt f_zero x"
  by (cases x) auto

lemma normalized_abs:
  assumes "\<not> f_eq x f_zero"
  shows "\<not> f_le (if f_lt x f_zero then f_neg x else x) f_zero \<and>
         ((if f_lt x f_zero then f_neg x else x) \<noteq> NaN \<longrightarrow>
            f_gt (if f_lt x f_zero then f_neg x else x) f_zero)"
  using assms by (cases x) (auto simp: f_le_def f_gt_def)

lemma normalized_abs':
  assumes "\<not> f_eq x f_zero"
  shows "\<not> f_le (if f_gt x f_zero then x else f_neg x) f_zero \<and>
         ((if f_gt x f_zero then x else f_neg x) \<noteq> NaN \<longrightarrow>
            f_gt (if f_gt x f_zero then x else f_neg x) f_zero)"
  using assms by (cases x) (auto simp: f_le_def f_gt_def)

lemma aster_position_normalized:
  assumes "aster_position L pos = Return (Some p)"
  shows "normalized p"
proof -
  obtain s where s: "as_string (pos ''positionAmt'') = Some s"
    using assms by (cases "as_string (pos ''positionAmt'')") (auto simp: aster_position_def)
  let ?x = "strconv_ParseFloat L s"
  have nz: "\<not> f_eq ?x f_zero"
    using assms s by (auto simp: aster_position_def Let_def split: if_splits)
  have sd: "side p = (if f_lt ?x f_zero then ''short'' else ''long'')"
    and am: "positionAmt p = (if f_lt ?x f_zero then f_neg ?x else ?x)"
    using assms s nz
    by (auto simp: aster_position_def Let_def split: option.splits if_splits)
  show ?thesis
    unfolding normalized_def side_ok_def am using sd normalized_abs [OF nz] by auto
qed

lemma aster_positions_normalized:
  "list_all normalized acc \<Longrightarrow> aster_positions L ps acc = Return r \<Longrightarrow> list_all normalized r"
proof (induction ps arbitrary: acc)
  case Nil
  then show ?case by simp
next
  case (Cons pos rest)
  show ?case
  proof (cases "aster_position L pos")
    case Panic
    with Cons.prems show ?thesis by simp
  next
    case (Return po)
    show ?thesis
    proof (cases po)
      case None
      with Return Cons show ?thesis by simp
    next
      case (Some p)
      with Return have "normalized p" by (simp add: aster_position_normalized)
      with Cons.prems(1) have "list_all normalized (acc @ [p])" by simp
      with Cons.IH [of "acc @ [p]"] Cons.prems(2) Return Some show ?thesis by simp
    qed
  qed
qed

lemma aster_GetPositions_normalized:
  assumes "fst (aster_GetPositions L t w) = Return (Inr ps)"
  shows "list_all normalized ps"
  using assms aster_positions_normalized [of "[]" L _ ps]
  by (auto simp: aster_GetPositions_def split: prod.splits sum.splits outcome.splits)

lemma hl_position_map_normalized:
  assumes "hl_position_map L pos = Some p"
  shows "normalized p"
proof -
  let ?x = "strconv_ParseFloat L (hp_Szi pos)"
  have nz: "\<not> f_eq ?x f_zero"
    using assms by (auto simp: hl_position_map_def Let_def split: if_splits)
  have sd: "side p = (if f_gt ?x f_zero then ''long'' else ''short'')"
    and am: "positionAmt p = (if f_gt ?x f_zero then ?x else f_neg ?x)"
    using assms nz by (auto simp: hl_position_map_def Let_def)
  show ?thesis
    unfolding normalized_def side_ok_def am using sd normalized_abs' [OF nz] by auto
qed

lemma map_filter_all:
  "(\<And>x y. f x = Some y \<Longrightarrow> P y) \<Longrightarrow> list_all P (List.map_filter f xs)"
  by (induction xs) (auto split: option.splits)

lemma hl_GetPositions_normalized:
  assumes "fst (hl_GetPositions L t w) = Inr ps"
  shows "list_all normalized ps"
  using assms map_filter_all [of "hl_position_map L" normalized] hl_position_map_normalized
  by (auto simp: hl_GetPositions_def Let_def split: sum.splits)

lemma bn_position_map_signed:
  assumes "bn_position_map L pos = Some p"
  shows "signed_amount p"
proof -
  let ?x = "strconv_ParseFloat L (pr_PositionAmt pos)"
  have nz: "\<not> f_eq ?x f_zero"
    using assms by (auto simp: bn_position_map_def Let_def split: if_splits)
  have sd: "side p = (if f_gt ?x f_zero then ''long'' else ''short'')"
    and am: "positionAmt p = ?x"
    using assms nz by (auto simp: bn_position_map_def Let_def)
  show ?thesis
    unfolding signed_amount_def side_ok_def am
    using sd nz f_trichotomy [of ?x] f_lt_asym [of ?x] by (auto simp: f_gt_def)
qed

lemma bn_fetch_positions_signed:
  assumes "bn_fetch_positions L t w = (Inr ps, t', w')"
  shows "list_all signed_amount ps \<and> cache_signed t'"
proof -
  obtain raw where raw: "bn_position_risk w (length (bn_calls w)) = Inr raw"
    using assms by (cases "bn_position_risk w (length (bn_calls w))")
      (auto simp: bn_fetch_positions_def Let_def)
  have ps: "ps = List.map_filter (bn_position_map L) raw"
    and t': "cachedPositions t' = (if ps = [] then None else Some ps)"
    using assms raw by (auto simp: bn_fetch_positions_def Let_def bn_time_Now_def)
  have "list_all signed_amount ps"
    unfolding ps using map_filter_all [of "bn_position_map L" signed_amount] bn_position_map_signed
    by blast
  then show ?thesis using t' by (simp add: cache_signed_def)
qed

lemma bn_GetPositions_signed:
  assumes "cache_signed t" and "bn_GetPositions L t w = (Inr ps, t', w')"
  shows "list_all signed_amount ps \<and> cache_signed t'"
proof (cases "cachedPositions t")
  case None
  with assms(2) show ?thesis
    using bn_fetch_positions_signed by (simp add: bn_GetPositions_def)
next
  case (Some cached)
  show ?thesis
  proof (cases "fst (bn_time_Now w) - positionsCacheTime t < cacheDuration t")
    case True
    with assms Some have "ps = cached" and "t' = t"
      by (auto simp: bn_GetPositions_def split: prod.splits)
    with assms(1) Some show ?thesis by (simp add: cache_signed_def)
  next
    case False
    with assms(2) Some have "bn_fetch_positions L t (snd (bn_time_Now w)) = (Inr ps, t', w')"
      by (auto simp: bn_GetPositions_def split: prod.splits)
    then show ?thesis by (rule bn_fetch_positions_signed)
  qed
qed

definition sample_short_signed :: position where
  "sample_short_signed =
     \<lparr>symbol = JString ''BTCUSDT'', side = ''short'', positionAmt = Finite (- (1 / 2)),
      entryPrice = Finite 10, markPrice = Finite 10, unRealizedProfit = f_zero,
      leverage = Finite 10, liquidationPrice = f_zero\<rparr>"

definition sample_short_magnitude :: position where
  "sample_short_magnitude = sample_short_signed\<lparr>positionAmt := Finite (1 / 2)\<rparr>"

lemma sample_bn_GetPositions:
  "fst (bn_GetPositions sample_lib NewFuturesTrader sample_bn_world) = Inr [sample_short_signed]"
  by (simp add: bn_GetPositions_def NewFuturesTrader_def bn_fetch_positions_def sample_bn_world_def
      bn_position_map_def sample_lib_def sample_ParseFloat_def bn_time_Now_def
      sample_short_signed_def f_gt_def Let_def)

lemma sample_aster_GetPositions:
  "fst (aster_GetPositions sample_lib sample_trader (world_ok ''positions'')) =
     Return (Inr [sample_short_magnitude])"
proof -
  have r: "fst (request sample_trader (world_ok ''positions'') ''GET'' ''/fapi/v3/positionRisk''
                  Map.empty) = Inr ''positions''"
    by (simp add: request_eval world_ok_def sample_trader_def)
  have p: "aster_positions sample_lib sample_positions [] = Return [sample_short_magnitude]"
    by (simp add: sample_positions_def aster_position_def sample_lib_def sample_ParseFloat_def
        lookup_def sample_short_magnitude_def sample_short_signed_def Let_def)
  have j: "json_objects sample_lib ''positions'' = Inr sample_positions"
    by (simp add: sample_lib_def)
  obtain res w' where rq:
    "request sample_trader (world_ok ''positions'') ''GET'' ''/fapi/v3/positionRisk'' Map.empty =
       (res, w')"
    by (cases "request sample_trader (world_ok ''positions'') ''GET'' ''/fapi/v3/positionRisk''
                 Map.empty")
  with r have "res = Inr ''positions''" by simp
  with rq p j show ?thesis by (simp add: aster_GetPositions_def)
qed

lemma sample_hl_GetPositions:
  "fst (hl_GetPositions sample_lib \<lparr>walletAddr = ''0xA1''\<rparr> sample_hl_world) =
     Inr [sample_short_magnitude\<lparr>markPrice := Finite 20\<rparr>]"
  by (simp add: hl_GetPositions_def sample_hl_world_def hl_position_map_def sample_lib_def
      sample_ParseFloat_def absFloat_def float64_of_int_def f_gt_def
      sample_short_magnitude_def sample_short_signed_def Let_def)

text \<open>
  Claim C6, as stated, fails on the Binance backend: \<open>FuturesTrader.GetPositions\<close>
  stores the venue's signed amount under \<open>positionAmt\<close>, so a short position of half a
  unit is returned with the quantity \<open>-0.5\<close>.
\<close>

theorem binance_short_position_keeps_sign:
  "fst (bn_GetPositions sample_lib NewFuturesTrader sample_bn_world) = Inr [sample_short_signed] \<and>
   side sample_short_signed = ''short'' \<and>
   positionAmt sample_short_signed = Finite (- (1 / 2)) \<and>
   \<not> f_gt (positionAmt sample_short_signed) f_zero"
  using sample_bn_GetPositions by (simp add: sample_short_signed_def f_gt_def)

text \<open>
  Claim C6, amended. Every position returned by \<open>GetPositions\<close> has the side long or
  short and a quantity that is not zero. On the Aster and Hyperliquid backends the
  quantity is the magnitude of the venue's amount: never negative, and strictly positive
  whenever the venue's amount is a number. On the Binance backend the quantity keeps the
  venue's sign: positive exactly for the long side and negative for the short side; this
  holds for the cached list as well, the cache being filled only by \<open>GetPositions\<close>.
\<close>

theorem positions_side_and_quantity:
  "(fst (aster_GetPositions L ta wa) = Return (Inr aps) \<longrightarrow> list_all normalized aps) \<and>
   (fst (hl_GetPositions L ht hw) = Inr hps \<longrightarrow> list_all normalized hps) \<and>
   cache_signed NewFuturesTrader \<and>
   (cache_signed bt \<and> bn_GetPositions L bt bw = (Inr bps, bt', bw') \<longrightarrow>
      list_all signed_amount bps \<and> cache_signed bt')"
  using aster_GetPositions_normalized hl_GetPositions_normalized bn_GetPositions_signed
  by (auto simp: cache_signed_def NewFuturesTrader_def)

theorem positions_side_and_quantity_witness:
  "fst (aster_GetPositions sample_lib sample_trader (world_ok ''positions'')) =
     Return (Inr [sample_short_magnitude]) \<and>
   list_all normalized [sample_short_magnitude] \<and>
   fst (hl_GetPositions sample_lib \<lparr>walletAddr = ''0xA1''\<rparr> sample_hl_world) =
     Inr [sample_short_magnitude\<lparr>markPrice := Finite 20\<rparr>] \<and>
   list_all normalized [sample_short_magnitude\<lparr>markPrice := Finite 20\<rparr>] \<and>
   cache_signed NewFuturesTrader \<and>
   fst (bn_GetPositions sample_lib NewFuturesTrader sample_bn_world) = Inr [sample_short_signed] \<and>
   list_all signed_amount [sample_short_signed] \<and>
   cache_signed (fst (snd (bn_GetPositions sample_lib NewFuturesTrader sample_bn_world)))"
proof -
  let ?r = "bn_GetPositions sample_lib NewFuturesTrader sample_bn_world"
  have b: "?r = (Inr [sample_short_signed], fst (snd ?r), snd (snd ?r))"
    using sample_bn_GetPositions by (metis prod.collapse)
  have c: "cache_signed NewFuturesTrader"
    by (simp add: cache_signed_def NewFuturesTrader_def)
  from positions_side_and_quantity
    [where L = sample_lib and ta = sample_trader and wa = "world_ok ''positions''"
       and aps = "[sample_short_magnitude]" and ht = "\<lparr>walletAddr = ''0xA1''\<rparr>"
       and hw = sample_hl_world and hps = "[sample_short_magnitude\<lparr>markPrice := Finite 20\<rparr>]"
       and bt = NewFuturesTrader and bw = sample_bn_world and bps = "[sample_short_signed]"
       and bt' = "fst (snd ?r)" and bw' = "snd (snd ?r)"]
    sample_aster_GetPositions sample_hl_GetPositions sample_bn_GetPositions b c
  show ?thesis by blast
qed

section \<open>Setting the leverage\<close>

definition leverage_call :: "string \<Rightarrow> int \<Rightarrow> string \<times> string \<times> params" where
  "leverage_call symb lev =
     (''POST'', ''/fapi/v3/leverage'', [''symbol'' \<mapsto> VString symb, ''leverage'' \<mapsto> VInt lev])"

text \<open>The current leverage \<open>SetLeverage\<close> works with, given what \<open>GetPositions\<close> returned.\<close>

definition known_leverage :: "golib \<Rightarrow> string \<Rightarrow> error + position list \<Rightarrow> int" where
  "known_leverage L symb res =
     (case res of Inl err \<Rightarrow> 0 | Inr positions \<Rightarrow> current_leverage L symb positions)"

lemma aster_SetLeverage_invocations:
  "invocations (snd (aster_SetLeverage t w symb lev)) = invocations w @ [leverage_call symb lev]"
  using request_invocations
    [of t w "''POST''" "''/fapi/v3/leverage''"
        "[''symbol'' \<mapsto> VString symb, ''leverage'' \<mapsto> VInt lev]"]
  by (auto simp: aster_SetLeverage_def leverage_call_def split: prod.splits sum.splits)

lemma sample_aster_SetLeverage_ok:
  "fst (aster_SetLeverage sample_trader (world_ok ''{}'') ''BTCUSDT'' 5) = None"
  by (simp add: aster_SetLeverage_def request_eval world_ok_def sample_trader_def
      split: prod.splits)

text \<open>
  Claim C7, as stated, fails on the Aster backend: \<open>AsterTrader.SetLeverage\<close> keeps no
  record of the leverage and sends its POST on every call. Two consecutive calls with
  the same symbol and target, the first of them successful, issue two remote calls.
\<close>

theorem aster_set_leverage_twice_two_calls:
  "fst (aster_SetLeverage sample_trader (world_ok ''{}'') ''BTCUSDT'' 5) = None \<and>
   invocations (snd (aster_SetLeverage sample_trader
       (snd (aster_SetLeverage sample_trader (world_ok ''{}'') ''BTCUSDT'' 5)) ''BTCUSDT'' 5)) =
     [leverage_call ''BTCUSDT'' 5, leverage_call ''BTCUSDT'' 5]"
  using sample_aster_SetLeverage_ok
  by (simp add: aster_SetLeverage_invocations world_ok_def)

text \<open>
  Claim C7, amended. Only the Binance backend skips the remote call, and it does so
  exactly when the position list it reads (the cached one or the venue's) has a position
  of the symbol whose leverage is the target, the target being positive: then nothing is
  sent and nothing else changes. In every other case, also when there is no position of
  the symbol or the positions cannot be read, it sends one leverage-change call. The
  Aster and Hyperliquid backends send one leverage-change call on every call of
  \<open>SetLeverage\<close>.
\<close>

theorem set_leverage_remote_calls:
  "(bn_GetPositions L t w = (res, t1, w1) \<and> known_leverage L symb res = lev \<and> 0 < lev \<longrightarrow>
      bn_SetLeverage L t w symb lev = (None, t1, w1) \<and>
      (bn_calls w1 = bn_calls w \<or> bn_calls w1 = bn_calls w @ [GetPositionRisk])) \<and>
   (bn_GetPositions L t w = (res, t1, w1) \<and> \<not> (known_leverage L symb res = lev \<and> 0 < lev) \<longrightarrow>
      bn_calls (snd (snd (bn_SetLeverage L t w symb lev))) =
        bn_calls w1 @ [ChangeLeverage symb lev]) \<and>
   invocations (snd (aster_SetLeverage ta wa symb lev)) =
     invocations wa @ [leverage_call symb lev] \<and>
   hl_calls (snd (hl_SetLeverage ht hw symb lev)) =
     hl_calls hw @ [UpdateLeverage lev (convertSymbolToHyperliquid symb) False]"
proof -
  have calls: "bn_calls w1 = bn_calls w \<or> bn_calls w1 = bn_calls w @ [GetPositionRisk]"
    if "bn_GetPositions L t w = (res, t1, w1)"
    using that
    by (auto simp: bn_GetPositions_def bn_fetch_positions_def bn_time_Now_def Let_def
        split: option.splits if_splits sum.splits prod.splits)
  have skip: "bn_SetLeverage L t w symb lev = (None, t1, w1)"
    if "bn_GetPositions L t w = (res, t1, w1)" and "known_leverage L symb res = lev" and "0 < lev"
    using that by (simp add: bn_SetLeverage_def known_leverage_def)
  have send: "bn_calls (snd (snd (bn_SetLeverage L t w symb lev))) =
        bn_calls w1 @ [ChangeLeverage symb lev]"
    if "bn_GetPositions L t w = (res, t1, w1)"
      and "\<not> (known_leverage L symb res = lev \<and> 0 < lev)"
    using that
    by (auto simp: bn_SetLeverage_def known_leverage_def Let_def split: option.splits)
  have hl: "hl_calls (snd (hl_SetLeverage ht hw symb lev)) =
     hl_calls hw @ [UpdateLeverage lev (convertSymbolToHyperliquid symb) False]"
    by (simp add: hl_SetLeverage_def Let_def split: option.splits)
  show ?thesis
    using calls skip send hl aster_SetLeverage_invocations by blast
qed

text \<open>
  A Binance trader whose cache, filled at time 0, holds a position of BTCUSDT with
  leverage 5; the clock of the sample world then reads one and two seconds.
\<close>

definition sample_cached_trader :: FuturesTrader where
  "sample_cached_trader =
     \<lparr>cachedPositions = Some [sample_short_signed\<lparr>leverage := Finite 5\<rparr>],
      positionsCacheTime = 0, cacheDuration = 15 * 1000000000\<rparr>"

theorem set_leverage_remote_calls_witness:
  "bn_SetLeverage sample_lib sample_cached_trader (sample_bn_world\<lparr>bn_reads := 1\<rparr>) ''BTCUSDT'' 5 =
     (None, sample_cached_trader, sample_bn_world\<lparr>bn_reads := 3\<rparr>) \<and>
   bn_calls (sample_bn_world\<lparr>bn_reads := 3\<rparr>) = [] \<and>
   bn_calls (snd (snd (bn_SetLeverage sample_lib sample_cached_trader
       (sample_bn_world\<lparr>bn_reads := 1\<rparr>) ''BTCUSDT'' 7))) = [ChangeLeverage ''BTCUSDT'' 7]"
proof -
  let ?w = "sample_bn_world\<lparr>bn_reads := 1\<rparr>"
  let ?w1 = "sample_bn_world\<lparr>bn_reads := 3\<rparr>"
  let ?res = "Inr [sample_short_signed\<lparr>leverage := Finite 5\<rparr>] :: error + position list"
  have g: "bn_GetPositions sample_lib sample_cached_trader ?w = (?res, sample_cached_trader, ?w1)"
    by (simp add: bn_GetPositions_def sample_cached_trader_def sample_bn_world_def bn_time_Now_def)
  have k: "known_leverage sample_lib ''BTCUSDT'' ?res = 5"
    by (simp add: known_leverage_def sample_short_signed_def trunc_zero_def)
  have c: "bn_calls ?w1 = []"
    by (simp add: sample_bn_world_def)
  from set_leverage_remote_calls
    [where L = sample_lib and t = sample_cached_trader and w = ?w and res = ?res
       and ?t1.0 = sample_cached_trader and ?w1.0 = ?w1 and symb = "''BTCUSDT''" and lev = 5]
    g k
  have a: "bn_SetLeverage sample_lib sample_cached_trader ?w ''BTCUSDT'' 5 =
     (None, sample_cached_trader, ?w1)"
    by simp
  from set_leverage_remote_calls
    [where L = sample_lib and t = sample_cached_trader and w = ?w and res = ?res
       and ?t1.0 = sample_cached_trader and ?w1.0 = ?w1 and symb = "''BTCUSDT''" and lev = 7]
    g k
  have b: "bn_calls (snd (snd (bn_SetLeverage sample_lib sample_cached_trader ?w ''BTCUSDT'' 7))) =
     bn_calls ?w1 @ [ChangeLeverage ''BTCUSDT'' 7]"
    by simp
  show ?thesis using a b c by simp
qed

section \<open>Rounding to the tick size\<close>

lemma f_gt_not_le: "f_gt x f_zero \<Longrightarrow> \<not> f_le x f_zero"
  by (cases x) (auto simp: f_gt_def f_le_def)

text \<open>Decimal-precision rounding, as both formatters do it when no tick or step is known.\<close>

definition round_decimal :: "golib \<Rightarrow> float64 \<Rightarrow> int \<Rightarrow> float64" where
  "round_decimal L v precision =
     f_div L (math_Round L (f_mul L v (math_Pow10 L precision))) (math_Pow10 L precision)"

text \<open>Rounding to a multiple of the tick: \<open>round(v / tick) * tick\<close>.\<close>

definition round_tick :: "golib \<Rightarrow> float64 \<Rightarrow> float64 \<Rightarrow> float64" where
  "round_tick L v tick = f_mul L (math_Round L (f_div L v tick)) tick"

text \<open>
  Claim C10. For every value and every tick size that is zero or negative,
  \<open>roundToTickSize\<close> returns the value itself, whatever the library's division, rounding
  and multiplication would give: the division is not on that path. Whenever the
  precision of the symbol is available, \<open>formatPrice\<close> rounds to a multiple of the tick
  size if the tick size is strictly positive and to \<open>PricePrecision\<close> decimals in every
  other case, and \<open>formatQuantity\<close> does the same with the step size and
  \<open>QuantityPrecision\<close>; so the division by the tick is only reached with a strictly
  positive tick.
\<close>

theorem round_to_tick_guard:
  "(f_le tickSize f_zero \<longrightarrow> roundToTickSize L v tickSize = v) \<and>
   (f_gt tickSize f_zero \<longrightarrow> roundToTickSize L v tickSize = round_tick L v tickSize) \<and>
   (getPrecision L t w symb = (Inr prec, t', w') \<longrightarrow>
      formatPrice L t w symb price =
        (Inr (if f_gt (TickSize prec) f_zero then round_tick L price (TickSize prec)
              else round_decimal L price (PricePrecision prec)), t', w') \<and>
      formatQuantity L t w symb quantity =
        (Inr (if f_gt (StepSize prec) f_zero then round_tick L quantity (StepSize prec)
              else round_decimal L quantity (QuantityPrecision prec)), t', w'))"
  by (auto simp: roundToTickSize_def round_tick_def round_decimal_def formatPrice_def
      formatQuantity_def Let_def dest: f_gt_not_le)

text \<open>A trader whose cache knows one symbol with no tick size and a step of one hundredth.\<close>

definition sample_precision :: SymbolPrecision where
  "sample_precision =
     \<lparr>PricePrecision = 1, QuantityPrecision = 3, TickSize = f_zero, StepSize = Finite (1 / 100)\<rparr>"

theorem round_to_tick_guard_witness:
  "f_le (Finite (- 1)) f_zero \<and>
   roundToTickSize sample_lib (Finite 7) (Finite (- 1)) = Finite 7 \<and>
   f_gt (Finite (1 / 100)) f_zero \<and>
   roundToTickSize sample_lib (Finite (1 / 4)) (Finite (1 / 100)) =
     round_tick sample_lib (Finite (1 / 4)) (Finite (1 / 100)) \<and>
   fst (formatPrice sample_lib
          (sample_trader\<lparr>symbolPrecision := [''BTCUSDT'' \<mapsto> sample_precision]\<rparr>)
          (world_ok ''{}'') ''BTCUSDT'' (Finite (5 / 4))) =
     Inr (round_decimal sample_lib (Finite (5 / 4)) 1) \<and>
   fst (formatQuantity sample_lib
          (sample_trader\<lparr>symbolPrecision := [''BTCUSDT'' \<mapsto> sample_precision]\<rparr>)
          (world_ok ''{}'') ''BTCUSDT'' (Finite (1 / 4))) =
     Inr (round_tick sample_lib (Finite (1 / 4)) (Finite (1 / 100)))"
proof -
  let ?t = "sample_trader\<lparr>symbolPrecision := [''BTCUSDT'' \<mapsto> sample_precision]\<rparr>"
  have le: "f_le (Finite (- 1)) f_zero" by (simp add: f_le_def)
  have gt: "f_gt (Finite (1 / 100)) f_zero" by (simp add: f_gt_def)
  have g: "getPrecision sample_lib ?t (world_ok ''{}'') ''BTCUSDT'' =
           (Inr sample_precision, ?t, world_ok ''{}'')"
    by (simp add: getPrecision_def)
  have p: "\<not> f_gt (TickSize sample_precision) f_zero" "f_gt (StepSize sample_precision) f_zero"
    "PricePrecision sample_precision = 1" "StepSize sample_precision = Finite (1 / 100)"
    by (simp_all add: sample_precision_def f_gt_def)
  note r1 = round_to_tick_guard
    [where tickSize = "Finite (- 1)" and L = sample_lib and v = "Finite 7" and t = ?t
       and w = "world_ok ''{}''" and symb = "''BTCUSDT''" and prec = sample_precision
       and t' = ?t and w' = "world_ok ''{}''" and price = "Finite (5 / 4)"
       and quantity = "Finite (1 / 4)"]
  note r2 = round_to_tick_guard
    [where tickSize = "Finite (1 / 100)" and L = sample_lib and v = "Finite (1 / 4)" and t = ?t
       and w = "world_ok ''{}''" and symb = "''BTCUSDT''" and prec = sample_precision
       and t' = ?t and w' = "world_ok ''{}''" and price = "Finite (5 / 4)"
       and quantity = "Finite (1 / 4)"]
  show ?thesis
    using r1 r2 le gt g p by simp
qed

end
